theory Spec2Isabelle
  imports Complex_Main "HOL-Library.Monad_Syntax" "HOL-Library.AList"
begin

section \<open>Go library functions used by the provider code\<close>

text \<open>
  \<^verbatim>\<open>strings.Split(s, "/")\<close>: the pieces of \<open>s\<close> between the occurrences of the
  separator character; the result has one piece more than there are separators, so it is
  never empty. \<^verbatim>\<open>strings.Join(parts, "/")\<close> puts the separator between the pieces.
\<close>

fun strings_Split :: "string \<Rightarrow> char \<Rightarrow> string list" where
  "strings_Split [] sep = [[]]"
| "strings_Split (c # cs) sep =
     (if c = sep then [] # strings_Split cs sep
      else (case strings_Split cs sep of
              [] \<Rightarrow> [[c]]
            | p # ps \<Rightarrow> (c # p) # ps))"

fun strings_Join :: "string list \<Rightarrow> string \<Rightarrow> string" where
  "strings_Join [] sep = []"
| "strings_Join [p] sep = p"
| "strings_Join (p # q # ps) sep = p @ sep @ strings_Join (q # ps) sep"

section \<open>EKS token: canonical ARNs (aws/internal/service/eks/token/arn.go)\<close>

text \<open>
  The fields of \<^verbatim>\<open>awsarn.ARN\<close> that \<^verbatim>\<open>awsarn.Parse\<close> fills. The parser belongs to the
  AWS SDK; \<open>Canonicalize\<close> takes it as the parameter \<open>parse\<close>.
\<close>

record ARN =
  Partition :: string
  Service :: string
  Region :: string
  AccountID :: string
  Resource :: string

datatype arn_error =
    ArnInvalid string string
  | PartitionNotRecognized string
  | AssumedRoleWithoutRole string
  | UnrecognizedResource string string
  | ServiceNotValid string string

text \<open>
  Modelled from the spec: the three partition identifiers of the SDK's \<^verbatim>\<open>endpoints\<close>
  package (\<^verbatim>\<open>AwsPartitionID\<close>, \<^verbatim>\<open>AwsCnPartitionID\<close>, \<^verbatim>\<open>AwsUsGovPartitionID\<close>), which
  the source names but does not define.
\<close>

definition AwsPartitionID :: string where
  "AwsPartitionID = ''aws''"

definition AwsCnPartitionID :: string where
  "AwsCnPartitionID = ''aws-cn''"

definition AwsUsGovPartitionID :: string where
  "AwsUsGovPartitionID = ''aws-us-gov''"

definition checkPartition :: "string \<Rightarrow> string option" where
  "checkPartition partition' =
     (if partition' = AwsPartitionID then None
      else if partition' = AwsCnPartitionID then None
      else if partition' = AwsUsGovPartitionID then None
      else Some (''partion '' @ partition' @ '' is not recognized''))"

definition Canonicalize :: "(string \<Rightarrow> string + ARN) \<Rightarrow> string \<Rightarrow> arn_error + string" where
  "Canonicalize parse arn =
     (case parse arn of
        Inl err \<Rightarrow> Inl (ArnInvalid arn err)
      | Inr parsed \<Rightarrow>
          (case checkPartition (Partition parsed) of
             Some err \<Rightarrow> Inl (PartitionNotRecognized arn)
           | None \<Rightarrow>
               (let parts = strings_Split (Resource parsed) CHR ''/'';
                    resource = hd parts
                in if Service parsed = ''sts'' then
                     (if resource = ''federated-user'' then Inr arn
                      else if resource = ''assumed-role'' then
                        (if length parts < 3 then Inl (AssumedRoleWithoutRole arn)
                         else
                           (let role = strings_Join (take (length parts - 1 - 1) (drop 1 parts)) ''/''
                            in Inr (''arn:'' @ Partition parsed @ '':iam::'' @ AccountID parsed
                                    @ '':role/'' @ role)))
                      else Inl (UnrecognizedResource (Resource parsed) ''sts''))
                   else if Service parsed = ''iam'' then
                     (if resource = ''role'' \<or> resource = ''user'' \<or> resource = ''root''
                      then Inr arn
                      else Inl (UnrecognizedResource (Resource parsed) ''iam''))
                   else Inl (ServiceNotValid (Service parsed) arn))))"

section \<open>Terraform configuration values\<close>

text \<open>
  The provider reads its configuration as a tree of \<^verbatim>\<open>interface{}\<close> values: strings,
  ints, floats, bools, lists (\<^verbatim>\<open>[]interface{}\<close>), sets (\<^verbatim>\<open>*schema.Set\<close>, here in the
  order of \<^verbatim>\<open>List()\<close>) and maps (\<^verbatim>\<open>map[string]interface{}\<close>). Go's \<^verbatim>\<open>int\<close> values
  are only copied into \<^verbatim>\<open>int64\<close> fields, never computed with, so they are \<open>int\<close> here.
\<close>

datatype tfvalue =
    TfString string
  | TfInt int
  | TfFloat real
  | TfBool bool
  | TfList "tfvalue list"
  | TfSet "tfvalue list"
  | TfMap "(string \<times> tfvalue) list"

text \<open>
  A type assertion \<^verbatim>\<open>v.(T)\<close> panics when \<open>v\<close> does not hold a \<open>T\<close>; indexing a map
  with a missing key gives the nil interface, on which every assertion panics. The
  functions below return \<open>None\<close> for the panic, and the expanders built from them
  propagate it.
\<close>

definition as_string :: "tfvalue option \<Rightarrow> string option" where
  "as_string v = (case v of Some (TfString s) \<Rightarrow> Some s | _ \<Rightarrow> None)"

definition as_int :: "tfvalue option \<Rightarrow> int option" where
  "as_int v = (case v of Some (TfInt i) \<Rightarrow> Some i | _ \<Rightarrow> None)"

definition as_float64 :: "tfvalue option \<Rightarrow> real option" where
  "as_float64 v = (case v of Some (TfFloat x) \<Rightarrow> Some x | _ \<Rightarrow> None)"

definition as_bool :: "tfvalue option \<Rightarrow> bool option" where
  "as_bool v = (case v of Some (TfBool b) \<Rightarrow> Some b | _ \<Rightarrow> None)"

definition as_list :: "tfvalue option \<Rightarrow> tfvalue list option" where
  "as_list v = (case v of Some (TfList xs) \<Rightarrow> Some xs | _ \<Rightarrow> None)"

definition as_set :: "tfvalue option \<Rightarrow> tfvalue list option" where
  "as_set v = (case v of Some (TfSet xs) \<Rightarrow> Some xs | _ \<Rightarrow> None)"

definition as_map :: "tfvalue option \<Rightarrow> (string \<times> tfvalue) list option" where
  "as_map v = (case v of Some (TfMap m) \<Rightarrow> Some m | _ \<Rightarrow> None)"

text \<open>A Go slice is either nil or a sequence of elements.\<close>

datatype 'a slice = NilSlice | Slice "'a list"

text \<open>
  What a well-typed configuration holds under a key: the readers below are total and
  are used to state properties, not in the embedded code.
\<close>

definition tf_string :: "tfvalue \<Rightarrow> string \<Rightarrow> string" where
  "tf_string v k =
     (case v of
        TfMap m \<Rightarrow> (case map_of m k of Some (TfString s) \<Rightarrow> s | _ \<Rightarrow> [])
      | _ \<Rightarrow> [])"

definition tf_list :: "tfvalue \<Rightarrow> string \<Rightarrow> tfvalue list" where
  "tf_list v k =
     (case v of
        TfMap m \<Rightarrow> (case map_of m k of Some (TfList xs) \<Rightarrow> xs | _ \<Rightarrow> [])
      | _ \<Rightarrow> [])"

definition has_string :: "tfvalue \<Rightarrow> string \<Rightarrow> bool" where
  "has_string v k =
     (case v of
        TfMap m \<Rightarrow> (case map_of m k of Some (TfString s) \<Rightarrow> True | _ \<Rightarrow> False)
      | _ \<Rightarrow> False)"

definition has_list :: "tfvalue \<Rightarrow> string \<Rightarrow> bool" where
  "has_list v k =
     (case v of
        TfMap m \<Rightarrow> (case map_of m k of Some (TfList xs) \<Rightarrow> True | _ \<Rightarrow> False)
      | _ \<Rightarrow> False)"

section \<open>MediaLive channel: output destinations (aws/media_live_channel_structure.go)\<close>

text \<open>
  The SDK structs hold pointers: a field is \<open>None\<close> for nil and \<open>Some v\<close> for what
  \<^verbatim>\<open>aws.String(v)\<close> or \<^verbatim>\<open>aws.Int64(v)\<close> returns.
\<close>

record OutputDestinationSettings =
  PasswordParam :: "string option"
  StreamName :: "string option"
  Url :: "string option"
  Username :: "string option"

record OutputDestination =
  Id :: "string option"
  Settings :: "OutputDestinationSettings slice"

text \<open>The body of the loop over \<open>destinationSettings\<close>, with \<open>result\<close> as accumulator.\<close>

fun expandOutputDestinationSettings_loop ::
  "tfvalue list \<Rightarrow> OutputDestinationSettings list \<Rightarrow> OutputDestinationSettings list option" where
  "expandOutputDestinationSettings_loop [] result = Some result"
| "expandOutputDestinationSettings_loop (settings # rest) result =
     do {
       r \<leftarrow> as_map (Some settings);
       password_param \<leftarrow> as_string (map_of r ''password_param'');
       stream_name \<leftarrow> as_string (map_of r ''stream_name'');
       url \<leftarrow> as_string (map_of r ''url'');
       username \<leftarrow> as_string (map_of r ''username'');
       expandOutputDestinationSettings_loop rest
         (result @ [\<lparr>PasswordParam = Some password_param,
                     StreamName = Some stream_name,
                     Url = Some url,
                     Username = Some username\<rparr>])
     }"

definition expandOutputDestinationSettings ::
  "tfvalue list \<Rightarrow> OutputDestinationSettings slice option" where
  "expandOutputDestinationSettings destinationSettings =
     (if length destinationSettings = 0 then Some NilSlice
      else map_option Slice (expandOutputDestinationSettings_loop destinationSettings []))"

fun expandDestinations_loop ::
  "tfvalue list \<Rightarrow> OutputDestination list \<Rightarrow> OutputDestination list option" where
  "expandDestinations_loop [] result = Some result"
| "expandDestinations_loop (destination # rest) result =
     do {
       r \<leftarrow> as_map (Some destination);
       id \<leftarrow> as_string (map_of r ''id'');
       settings_raw \<leftarrow> as_list (map_of r ''settings'');
       settings \<leftarrow> expandOutputDestinationSettings settings_raw;
       expandDestinations_loop rest (result @ [\<lparr>Id = Some id, Settings = settings\<rparr>])
     }"

definition expandDestinations :: "tfvalue list \<Rightarrow> OutputDestination slice option" where
  "expandDestinations destinations =
     (if length destinations = 0 then Some NilSlice
      else map_option Slice (expandDestinations_loop destinations []))"

text \<open>
  The schema of a channel's \<^verbatim>\<open>destinations\<close>: each element is a map with a string
  \<^verbatim>\<open>id\<close> and a list \<^verbatim>\<open>settings\<close> of maps with the strings \<^verbatim>\<open>password_param\<close>,
  \<^verbatim>\<open>stream_name\<close>, \<^verbatim>\<open>url\<close> and \<^verbatim>\<open>username\<close>.
\<close>

definition destination_settings_schema :: "tfvalue \<Rightarrow> bool" where
  "destination_settings_schema v =
     (has_string v ''password_param'' \<and> has_string v ''stream_name'' \<and>
      has_string v ''url'' \<and> has_string v ''username'')"

definition destination_schema :: "tfvalue \<Rightarrow> bool" where
  "destination_schema v =
     (has_string v ''id'' \<and> has_list v ''settings'' \<and>
      list_all destination_settings_schema (tf_list v ''settings''))"

text \<open>The translation of one configured settings entry and of a settings list.\<close>

definition settings_entry_of :: "tfvalue \<Rightarrow> OutputDestinationSettings" where
  "settings_entry_of v =
     \<lparr>PasswordParam = Some (tf_string v ''password_param''),
      StreamName = Some (tf_string v ''stream_name''),
      Url = Some (tf_string v ''url''),
      Username = Some (tf_string v ''username'')\<rparr>"

definition settings_of :: "tfvalue list \<Rightarrow> OutputDestinationSettings slice" where
  "settings_of vs = (if vs = [] then NilSlice else Slice (map settings_entry_of vs))"

definition destination_of :: "tfvalue \<Rightarrow> OutputDestination" where
  "destination_of v =
     \<lparr>Id = Some (tf_string v ''id''), Settings = settings_of (tf_list v ''settings'')\<rparr>"

section \<open>MediaLive channel: H.264 settings (aws/media_live_channel_structure.go)\<close>

text \<open>
  The SDK struct \<^verbatim>\<open>medialive.H264Settings\<close> with the fields that the provider sets.
\<close>

record H264Settings =
  AdaptiveQuantization :: "string option"
  AfdSignaling :: "string option"
  Bitrate :: "int option"
  BufFillPct :: "int option"
  BufSize :: "int option"
  ColorMetadata :: "string option"
  EntropyEncoding :: "string option"
  FlickerAq :: "string option"
  ForceFieldPictures :: "string option"
  FramerateControl :: "string option"
  FramerateDenominator :: "int option"
  FramerateNumerator :: "int option"
  GopBReference :: "string option"
  GopClosedCadence :: "int option"
  GopNumBFrames :: "int option"
  GopSize :: "real option"
  GopSizeUnits :: "string option"
  Level :: "string option"
  LookAheadRateControl :: "string option"
  NumRefFrames :: "int option"
  ParControl :: "string option"
  Profile :: "string option"
  QualityLevel :: "string option"
  RateControlMode :: "string option"
  SceneChangeDetect :: "string option"
  SpatialAq :: "string option"
  Syntax :: "string option"
  TemporalAq :: "string option"
  TimecodeInsertion :: "string option"

text \<open>\<^verbatim>\<open>&medialive.H264Settings{}\<close>: every field nil.\<close>

definition H264Settings_empty :: H264Settings where
  "H264Settings_empty =
     \<lparr>AdaptiveQuantization = None,
      AfdSignaling = None,
      Bitrate = None,
      BufFillPct = None,
      BufSize = None,
      ColorMetadata = None,
      EntropyEncoding = None,
      FlickerAq = None,
      ForceFieldPictures = None,
      FramerateControl = None,
      FramerateDenominator = None,
      FramerateNumerator = None,
      GopBReference = None,
      GopClosedCadence = None,
      GopNumBFrames = None,
      GopSize = None,
      GopSizeUnits = None,
      Level = None,
      LookAheadRateControl = None,
      NumRefFrames = None,
      ParControl = None,
      Profile = None,
      QualityLevel = None,
      RateControlMode = None,
      SceneChangeDetect = None,
      SpatialAq = None,
      Syntax = None,
      TemporalAq = None,
      TimecodeInsertion = None\<rparr>"

text \<open>
  \<open>expandH264Settings\<close>, lines 598 to 641. The parameter is the list that
  \<^verbatim>\<open>s.List()\<close> returns; \<^verbatim>\<open>s.Len()\<close> is its length.
\<close>

definition expandH264Settings :: "tfvalue list \<Rightarrow> H264Settings option" where
  "expandH264Settings s =
     (if length s > 0 then
       do {
         rawSettings \<leftarrow> as_map (Some (s ! 0));
         adaptive_quantization \<leftarrow> as_string (map_of rawSettings ''adaptive_quantization'');
         afd_signaling \<leftarrow> as_string (map_of rawSettings ''afd_signaling'');
         bitrate \<leftarrow> as_int (map_of rawSettings ''bitrate'');
         buf_fill_pct \<leftarrow> as_int (map_of rawSettings ''buf_fill_pct'');
         buf_size \<leftarrow> as_int (map_of rawSettings ''buf_size'');
         color_metadata \<leftarrow> as_string (map_of rawSettings ''color_metadata'');
         entropy_encoding \<leftarrow> as_string (map_of rawSettings ''entropy_encoding'');
         flicker_aq \<leftarrow> as_string (map_of rawSettings ''flicker_aq'');
         force_field_pictures \<leftarrow> as_string (map_of rawSettings ''force_field_pictures'');
         gop_b_reference \<leftarrow> as_string (map_of rawSettings ''gop_b_reference'');
         gop_closed_cadence \<leftarrow> as_int (map_of rawSettings ''gop_closed_cadence'');
         gop_num_b_frames \<leftarrow> as_int (map_of rawSettings ''gop_num_b_frames'');
         gop_size \<leftarrow> as_float64 (map_of rawSettings ''gop_size'');
         gop_size_units \<leftarrow> as_string (map_of rawSettings ''gop_size_units'');
         level \<leftarrow> as_string (map_of rawSettings ''level'');
         look_ahead_rate_control \<leftarrow> as_string (map_of rawSettings ''look_ahead_rate_control'');
         num_ref_frames \<leftarrow> as_int (map_of rawSettings ''num_ref_frames'');
         par_control \<leftarrow> as_string (map_of rawSettings ''par_control'');
         quality_level \<leftarrow> as_string (map_of rawSettings ''quality_level'');
         profile \<leftarrow> as_string (map_of rawSettings ''profile'');
         rate_control_mode \<leftarrow> as_string (map_of rawSettings ''rate_control_mode'');
         syntax \<leftarrow> as_string (map_of rawSettings ''syntax'');
         scene_change_detect \<leftarrow> as_string (map_of rawSettings ''scene_change_detect'');
         spatial_aq \<leftarrow> as_string (map_of rawSettings ''spatial_aq'');
         temporal_aq \<leftarrow> as_string (map_of rawSettings ''temporal_aq'');
         timecode_insertion \<leftarrow> as_string (map_of rawSettings ''timecode_insertion'');
         let h264Settings =
               \<lparr>AdaptiveQuantization = Some adaptive_quantization,
                 AfdSignaling = Some afd_signaling,
                 Bitrate = Some bitrate,
                 BufFillPct = Some buf_fill_pct,
                 BufSize = Some buf_size,
                 ColorMetadata = Some color_metadata,
                 EntropyEncoding = Some entropy_encoding,
                 FlickerAq = Some flicker_aq,
                 ForceFieldPictures = Some force_field_pictures,
                 FramerateControl = None,
                 FramerateDenominator = None,
                 FramerateNumerator = None,
                 GopBReference = Some gop_b_reference,
                 GopClosedCadence = Some gop_closed_cadence,
                 GopNumBFrames = Some gop_num_b_frames,
                 GopSize = Some gop_size,
                 GopSizeUnits = Some gop_size_units,
                 Level = Some level,
                 LookAheadRateControl = Some look_ahead_rate_control,
                 NumRefFrames = Some num_ref_frames,
                 ParControl = Some par_control,
                 Profile = Some profile,
                 QualityLevel = Some quality_level,
                 RateControlMode = Some rate_control_mode,
                 SceneChangeDetect = Some scene_change_detect,
                 SpatialAq = Some spatial_aq,
                 Syntax = Some syntax,
                 TemporalAq = Some temporal_aq,
                 TimecodeInsertion = Some timecode_insertion\<rparr>;
         framerateControl \<leftarrow> as_string (map_of rawSettings ''framerate_control'');
         let h264Settings = h264Settings\<lparr>FramerateControl := Some framerateControl\<rparr>;
         if framerateControl = ''SPECIFIED'' then
           do {
             framerate_denominator \<leftarrow> as_int (map_of rawSettings ''framerate_denominator'');
             framerate_numerator \<leftarrow> as_int (map_of rawSettings ''framerate_numerator'');
             Some (h264Settings\<lparr>FramerateDenominator := Some framerate_denominator,
                                FramerateNumerator := Some framerate_numerator\<rparr>)
           }
         else Some h264Settings
       }
      else Some H264Settings_empty)"

text \<open>The earlier revision of \<open>expandH264Settings\<close>, lines 1175 to 1212.\<close>

definition expandH264Settings_old :: "tfvalue list \<Rightarrow> H264Settings option" where
  "expandH264Settings_old s =
     (if length s > 0 then
       do {
         rawSettings \<leftarrow> as_map (Some (s ! 0));
         adaptive_quantization \<leftarrow> as_string (map_of rawSettings ''adaptive_quantization'');
         afd_signaling \<leftarrow> as_string (map_of rawSettings ''afd_signaling'');
         bitrate \<leftarrow> as_int (map_of rawSettings ''bitrate'');
         buf_fill_pct \<leftarrow> as_int (map_of rawSettings ''buf_fill_pct'');
         buf_size \<leftarrow> as_int (map_of rawSettings ''buf_size'');
         color_metadata \<leftarrow> as_string (map_of rawSettings ''color_metadata'');
         entropy_encoding \<leftarrow> as_string (map_of rawSettings ''entropy_encoding'');
         flicker_aq \<leftarrow> as_string (map_of rawSettings ''flicker_aq'');
         force_field_pictures \<leftarrow> as_string (map_of rawSettings ''force_field_pictures'');
         framerate_control \<leftarrow> as_string (map_of rawSettings ''framerate_control'');
         framerate_denominator \<leftarrow> as_int (map_of rawSettings ''framerate_denominator'');
         framerate_numerator \<leftarrow> as_int (map_of rawSettings ''framerate_numerator'');
         gop_b_reference \<leftarrow> as_string (map_of rawSettings ''gop_b_reference'');
         gop_closed_cadence \<leftarrow> as_int (map_of rawSettings ''gop_closed_cadence'');
         gop_num_b_frames \<leftarrow> as_int (map_of rawSettings ''gop_num_b_frames'');
         gop_size \<leftarrow> as_float64 (map_of rawSettings ''gop_size'');
         gop_size_units \<leftarrow> as_string (map_of rawSettings ''gop_size_units'');
         level \<leftarrow> as_string (map_of rawSettings ''level'');
         look_ahead_rate_control \<leftarrow> as_string (map_of rawSettings ''look_ahead_rate_control'');
         num_ref_frames \<leftarrow> as_int (map_of rawSettings ''num_ref_frames'');
         par_control \<leftarrow> as_string (map_of rawSettings ''par_control'');
         quality_level \<leftarrow> as_string (map_of rawSettings ''quality_level'');
         profile \<leftarrow> as_string (map_of rawSettings ''profile'');
         rate_control_mode \<leftarrow> as_string (map_of rawSettings ''rate_control_mode'');
         syntax \<leftarrow> as_string (map_of rawSettings ''syntax'');
         scene_change_detect \<leftarrow> as_string (map_of rawSettings ''scene_change_detect'');
         spatial_aq \<leftarrow> as_string (map_of rawSettings ''spatial_aq'');
         temporal_aq \<leftarrow> as_string (map_of rawSettings ''temporal_aq'');
         timecode_insertion \<leftarrow> as_string (map_of rawSettings ''timecode_insertion'');
         Some \<lparr>AdaptiveQuantization = Some adaptive_quantization,
              AfdSignaling = Some afd_signaling,
              Bitrate = Some bitrate,
              BufFillPct = Some buf_fill_pct,
              BufSize = Some buf_size,
              ColorMetadata = Some color_metadata,
              EntropyEncoding = Some entropy_encoding,
              FlickerAq = Some flicker_aq,
              ForceFieldPictures = Some force_field_pictures,
              FramerateControl = Some framerate_control,
              FramerateDenominator = Some framerate_denominator,
              FramerateNumerator = Some framerate_numerator,
              GopBReference = Some gop_b_reference,
              GopClosedCadence = Some gop_closed_cadence,
              GopNumBFrames = Some gop_num_b_frames,
              GopSize = Some gop_size,
              GopSizeUnits = Some gop_size_units,
              Level = Some level,
              LookAheadRateControl = Some look_ahead_rate_control,
              NumRefFrames = Some num_ref_frames,
              ParControl = Some par_control,
              Profile = Some profile,
              QualityLevel = Some quality_level,
              RateControlMode = Some rate_control_mode,
              SceneChangeDetect = Some scene_change_detect,
              SpatialAq = Some spatial_aq,
              Syntax = Some syntax,
              TemporalAq = Some temporal_aq,
              TimecodeInsertion = Some timecode_insertion\<rparr>
       }
      else Some H264Settings_empty)"

text \<open>
  The schema of an element of \<^verbatim>\<open>h264_settings\<close>: a map that holds a value of the
  schema's type under each key that the expander reads.
\<close>

definition has_int :: "tfvalue \<Rightarrow> string \<Rightarrow> bool" where
  "has_int v k =
     (case v of
        TfMap m \<Rightarrow> (case map_of m k of Some (TfInt i) \<Rightarrow> True | _ \<Rightarrow> False)
      | _ \<Rightarrow> False)"

definition has_float :: "tfvalue \<Rightarrow> string \<Rightarrow> bool" where
  "has_float v k =
     (case v of
        TfMap m \<Rightarrow> (case map_of m k of Some (TfFloat x) \<Rightarrow> True | _ \<Rightarrow> False)
      | _ \<Rightarrow> False)"

definition tf_int :: "tfvalue \<Rightarrow> string \<Rightarrow> int" where
  "tf_int v k =
     (case v of
        TfMap m \<Rightarrow> (case map_of m k of Some (TfInt i) \<Rightarrow> i | _ \<Rightarrow> 0)
      | _ \<Rightarrow> 0)"

definition h264_settings_schema :: "tfvalue \<Rightarrow> bool" where
  "h264_settings_schema v =
     (has_string v ''adaptive_quantization'' \<and>
      has_string v ''afd_signaling'' \<and>
      has_int v ''bitrate'' \<and>
      has_int v ''buf_fill_pct'' \<and>
      has_int v ''buf_size'' \<and>
      has_string v ''color_metadata'' \<and>
      has_string v ''entropy_encoding'' \<and>
      has_string v ''flicker_aq'' \<and>
      has_string v ''force_field_pictures'' \<and>
      has_string v ''framerate_control'' \<and>
      has_int v ''framerate_denominator'' \<and>
      has_int v ''framerate_numerator'' \<and>
      has_string v ''gop_b_reference'' \<and>
      has_int v ''gop_closed_cadence'' \<and>
      has_int v ''gop_num_b_frames'' \<and>
      has_float v ''gop_size'' \<and>
      has_string v ''gop_size_units'' \<and>
      has_string v ''level'' \<and>
      has_string v ''look_ahead_rate_control'' \<and>
      has_int v ''num_ref_frames'' \<and>
      has_string v ''par_control'' \<and>
      has_string v ''quality_level'' \<and>
      has_string v ''profile'' \<and>
      has_string v ''rate_control_mode'' \<and>
      has_string v ''syntax'' \<and>
      has_string v ''scene_change_detect'' \<and>
      has_string v ''spatial_aq'' \<and>
      has_string v ''temporal_aq'' \<and>
      has_string v ''timecode_insertion'')"

text \<open>
  An element of \<^verbatim>\<open>h264_settings\<close> that takes the frame rate from the source and
  leaves the optional numerator and denominator at their zero values.
\<close>

definition sample_h264_settings :: tfvalue where
  "sample_h264_settings =
     TfMap [(''adaptive_quantization'', TfString ''HIGH''),
            (''afd_signaling'', TfString ''NONE''),
            (''bitrate'', TfInt 5000000),
            (''buf_fill_pct'', TfInt 0),
            (''buf_size'', TfInt 0),
            (''color_metadata'', TfString ''INSERT''),
            (''entropy_encoding'', TfString ''CABAC''),
            (''flicker_aq'', TfString ''ENABLED''),
            (''force_field_pictures'', TfString ''DISABLED''),
            (''framerate_control'', TfString ''INITIALIZE_FROM_SOURCE''),
            (''framerate_denominator'', TfInt 0),
            (''framerate_numerator'', TfInt 0),
            (''gop_b_reference'', TfString ''DISABLED''),
            (''gop_closed_cadence'', TfInt 1),
            (''gop_num_b_frames'', TfInt 2),
            (''gop_size'', TfFloat 90),
            (''gop_size_units'', TfString ''FRAMES''),
            (''level'', TfString ''H264_LEVEL_AUTO''),
            (''look_ahead_rate_control'', TfString ''MEDIUM''),
            (''num_ref_frames'', TfInt 1),
            (''par_control'', TfString ''INITIALIZE_FROM_SOURCE''),
            (''quality_level'', TfString ''STANDARD_QUALITY''),
            (''profile'', TfString ''HIGH''),
            (''rate_control_mode'', TfString ''CBR''),
            (''syntax'', TfString ''DEFAULT''),
            (''scene_change_detect'', TfString ''ENABLED''),
            (''spatial_aq'', TfString ''ENABLED''),
            (''temporal_aq'', TfString ''ENABLED''),
            (''timecode_insertion'', TfString ''DISABLED'')]"

section \<open>MediaLive channel: output group and output settings (aws/media_live_channel_structure.go)\<close>

text \<open>
  The SDK structs with the fields that the provider sets, and the expanders of the later
  revision (lines 1 to 736) that \<open>expandOutputGroupSettings\<close> and
  \<open>expandOutputSettings\<close> call. An expander takes the list that \<^verbatim>\<open>s.List()\<close>
  returns for its set. Where the source returns a nil pointer for an empty set, the
  result is \<open>Some None\<close>; \<open>None\<close> alone is a panic.
\<close>

record CaptionLanguageMapping =
  CaptionChannel :: "int option"
  LanguageCode :: "string option"
  LanguageDescription :: "string option"


record HlsBasicPutSettings =
  ConnectionRetryInterval :: "int option"
  FilecacheDuration :: "int option"
  NumRetries :: "int option"
  RestartDelay :: "int option"

definition HlsBasicPutSettings_empty :: HlsBasicPutSettings where
  "HlsBasicPutSettings_empty =
     \<lparr>HlsBasicPutSettings.ConnectionRetryInterval = None,
      HlsBasicPutSettings.FilecacheDuration = None,
      HlsBasicPutSettings.NumRetries = None,
      HlsBasicPutSettings.RestartDelay = None\<rparr>"

text \<open>\<open>expandHlsBasicPutSettings\<close>, lines 517 to 530.\<close>

definition expandHlsBasicPutSettings :: "tfvalue list \<Rightarrow> HlsBasicPutSettings option" where
  "expandHlsBasicPutSettings s =
     (if length s > 0 then
       do {
         settings \<leftarrow> as_map (Some (s ! 0));
         connection_retry_interval \<leftarrow> as_int (map_of settings ''connection_retry_interval'');
         filecache_duration \<leftarrow> as_int (map_of settings ''filecache_duration'');
         num_retries \<leftarrow> as_int (map_of settings ''num_retries'');
         restart_delay \<leftarrow> as_int (map_of settings ''restart_delay'');
         Some \<lparr>HlsBasicPutSettings.ConnectionRetryInterval = Some connection_retry_interval,
                 HlsBasicPutSettings.FilecacheDuration = Some filecache_duration,
                 HlsBasicPutSettings.NumRetries = Some num_retries,
                 HlsBasicPutSettings.RestartDelay = Some restart_delay\<rparr>
       }
      else Some HlsBasicPutSettings_empty)"

record HlsCdnSettings =
  HlsBasicPutSettings :: "HlsBasicPutSettings option"

definition HlsCdnSettings_empty :: HlsCdnSettings where
  "HlsCdnSettings_empty =
     \<lparr>HlsCdnSettings.HlsBasicPutSettings = None\<rparr>"

text \<open>\<open>expandHlsCdnSettings\<close>, lines 490 to 503.\<close>

definition expandHlsCdnSettings :: "tfvalue list \<Rightarrow> HlsCdnSettings option" where
  "expandHlsCdnSettings s =
     (if length s > 0 then
       do {
         settings \<leftarrow> as_map (Some (s ! 0));
         hls_basic_put_settings_raw \<leftarrow> as_set (map_of settings ''hls_basic_put_settings'');
         hls_basic_put_settings \<leftarrow> expandHlsBasicPutSettings hls_basic_put_settings_raw;
         Some \<lparr>HlsCdnSettings.HlsBasicPutSettings = Some hls_basic_put_settings\<rparr>
       }
      else Some HlsCdnSettings_empty)"

record OutputLocationRef =
  DestinationRefId :: "string option"

definition OutputLocationRef_empty :: OutputLocationRef where
  "OutputLocationRef_empty =
     \<lparr>OutputLocationRef.DestinationRefId = None\<rparr>"

text \<open>\<open>expandHlsDestinationRef\<close>, lines 505 to 515.\<close>

definition expandHlsDestinationRef :: "tfvalue list \<Rightarrow> OutputLocationRef option" where
  "expandHlsDestinationRef s =
     (if length s > 0 then
       do {
         settings \<leftarrow> as_map (Some (s ! 0));
         destination_ref_id \<leftarrow> as_string (map_of settings ''destination_ref_id'');
         Some \<lparr>OutputLocationRef.DestinationRefId = Some destination_ref_id\<rparr>
       }
      else Some OutputLocationRef_empty)"

text \<open>\<open>expandRtmpOutputDestination\<close>, lines 675 to 684.\<close>

definition expandRtmpOutputDestination :: "tfvalue list \<Rightarrow> OutputLocationRef option option" where
  "expandRtmpOutputDestination s =
     (if length s > 0 then
       do {
         settings \<leftarrow> as_map (Some (s ! 0));
         destination_ref_id \<leftarrow> as_string (map_of settings ''destination_ref_id'');
         Some (Some \<lparr>OutputLocationRef.DestinationRefId = Some destination_ref_id\<rparr>)
       }
      else Some None)"

record M3u8Settings =
  AudioFramesPerPes :: "int option"
  AudioPids :: "string option"
  NielsenId3Behavior :: "string option"
  PatInterval :: "int option"
  PcrControl :: "string option"
  PmtPid :: "string option"
  ProgramNum :: "int option"
  Scte35Behavior :: "string option"
  Scte35Pid :: "string option"
  TimedMetadataBehavior :: "string option"
  TimedMetadataPid :: "string option"
  VideoPid :: "string option"

definition M3u8Settings_empty :: M3u8Settings where
  "M3u8Settings_empty =
     \<lparr>M3u8Settings.AudioFramesPerPes = None,
      M3u8Settings.AudioPids = None,
      M3u8Settings.NielsenId3Behavior = None,
      M3u8Settings.PatInterval = None,
      M3u8Settings.PcrControl = None,
      M3u8Settings.PmtPid = None,
      M3u8Settings.ProgramNum = None,
      M3u8Settings.Scte35Behavior = None,
      M3u8Settings.Scte35Pid = None,
      M3u8Settings.TimedMetadataBehavior = None,
      M3u8Settings.TimedMetadataPid = None,
      M3u8Settings.VideoPid = None\<rparr>"

text \<open>\<open>expandM3u8settings\<close>, lines 410 to 431.\<close>

definition expandM3u8settings :: "tfvalue list \<Rightarrow> M3u8Settings option" where
  "expandM3u8settings s =
     (if length s > 0 then
       do {
         settings \<leftarrow> as_map (Some (s ! 0));
         audio_frames_per_pes \<leftarrow> as_int (map_of settings ''audio_frames_per_pes'');
         audio_pids \<leftarrow> as_string (map_of settings ''audio_pids'');
         nielsen_id3_behavior \<leftarrow> as_string (map_of settings ''nielsen_id3_behavior'');
         pat_interval \<leftarrow> as_int (map_of settings ''pat_interval'');
         pcr_control \<leftarrow> as_string (map_of settings ''pcr_control'');
         pmt_pid \<leftarrow> as_string (map_of settings ''pmt_pid'');
         program_num \<leftarrow> as_int (map_of settings ''program_num'');
         scte_35_behavior \<leftarrow> as_string (map_of settings ''scte_35_behavior'');
         scte_35_pid \<leftarrow> as_string (map_of settings ''scte_35_pid'');
         timed_metadata_behavior \<leftarrow> as_string (map_of settings ''timed_metadata_behavior'');
         timed_metadata_pid \<leftarrow> as_string (map_of settings ''timed_metadata_pid'');
         video_pid \<leftarrow> as_string (map_of settings ''video_pid'');
         Some \<lparr>M3u8Settings.AudioFramesPerPes = Some audio_frames_per_pes,
                 M3u8Settings.AudioPids = Some audio_pids,
                 M3u8Settings.NielsenId3Behavior = Some nielsen_id3_behavior,
                 M3u8Settings.PatInterval = Some pat_interval,
                 M3u8Settings.PcrControl = Some pcr_control,
                 M3u8Settings.PmtPid = Some pmt_pid,
                 M3u8Settings.ProgramNum = Some program_num,
                 M3u8Settings.Scte35Behavior = Some scte_35_behavior,
                 M3u8Settings.Scte35Pid = Some scte_35_pid,
                 M3u8Settings.TimedMetadataBehavior = Some timed_metadata_behavior,
                 M3u8Settings.TimedMetadataPid = Some timed_metadata_pid,
                 M3u8Settings.VideoPid = Some video_pid\<rparr>
       }
      else Some M3u8Settings_empty)"

record AudioOnlyHlsSettings =
  AudioGroupId :: "string option"
  AudioTrackType :: "string option"
  SegmentType :: "string option"

definition AudioOnlyHlsSettings_empty :: AudioOnlyHlsSettings where
  "AudioOnlyHlsSettings_empty =
     \<lparr>AudioOnlyHlsSettings.AudioGroupId = None,
      AudioOnlyHlsSettings.AudioTrackType = None,
      AudioOnlyHlsSettings.SegmentType = None\<rparr>"

text \<open>\<open>expandAudioOnlyHlsSettings\<close>, lines 397 to 408.\<close>

definition expandAudioOnlyHlsSettings :: "tfvalue list \<Rightarrow> AudioOnlyHlsSettings option option" where
  "expandAudioOnlyHlsSettings s =
     (if length s > 0 then
       do {
         settings \<leftarrow> as_map (Some (s ! 0));
         audio_group_id \<leftarrow> as_string (map_of settings ''audio_group_id'');
         audio_track_type \<leftarrow> as_string (map_of settings ''audio_track_type'');
         segment_type \<leftarrow> as_string (map_of settings ''segment_type'');
         Some (Some \<lparr>AudioOnlyHlsSettings.AudioGroupId = Some audio_group_id,
                 AudioOnlyHlsSettings.AudioTrackType = Some audio_track_type,
                 AudioOnlyHlsSettings.SegmentType = Some segment_type\<rparr>)
       }
      else Some None)"

record StandardHlsSettings =
  AudioRenditionSets :: "string option"
  M3u8Settings :: "M3u8Settings option"

definition StandardHlsSettings_empty :: StandardHlsSettings where
  "StandardHlsSettings_empty =
     \<lparr>StandardHlsSettings.AudioRenditionSets = None,
      StandardHlsSettings.M3u8Settings = None\<rparr>"

text \<open>\<open>expandStandardHlsSettings\<close>, lines 295 to 305.\<close>

definition expandStandardHlsSettings :: "tfvalue list \<Rightarrow> StandardHlsSettings option option" where
  "expandStandardHlsSettings s =
     (if length s > 0 then
       do {
         settings \<leftarrow> as_map (Some (s ! 0));
         audio_rendition_sets \<leftarrow> as_string (map_of settings ''audio_rendition_sets'');
         m3u8_settings_raw \<leftarrow> as_set (map_of settings ''m3u8_settings'');
         m3u8_settings \<leftarrow> expandM3u8settings m3u8_settings_raw;
         Some (Some \<lparr>StandardHlsSettings.AudioRenditionSets = Some audio_rendition_sets,
                 StandardHlsSettings.M3u8Settings = Some m3u8_settings\<rparr>)
       }
      else Some None)"

record HlsSettings =
  AudioOnlyHlsSettings :: "AudioOnlyHlsSettings option"
  StandardHlsSettings :: "StandardHlsSettings option"

definition HlsSettings_empty :: HlsSettings where
  "HlsSettings_empty =
     \<lparr>HlsSettings.AudioOnlyHlsSettings = None,
      HlsSettings.StandardHlsSettings = None\<rparr>"

text \<open>\<open>expandHlsSettings\<close>, lines 282 to 293.\<close>

definition expandHlsSettings :: "tfvalue list \<Rightarrow> HlsSettings option" where
  "expandHlsSettings s =
     (if length s > 0 then
       do {
         settings \<leftarrow> as_map (Some (s ! 0));
         standard_hls_settings_raw \<leftarrow> as_set (map_of settings ''standard_hls_settings'');
         standard_hls_settings \<leftarrow> expandStandardHlsSettings standard_hls_settings_raw;
         audio_only_hls_settings_raw \<leftarrow> as_set (map_of settings ''audio_only_hls_settings'');
         audio_only_hls_settings \<leftarrow> expandAudioOnlyHlsSettings audio_only_hls_settings_raw;
         Some \<lparr>HlsSettings.AudioOnlyHlsSettings = audio_only_hls_settings,
                 HlsSettings.StandardHlsSettings = standard_hls_settings\<rparr>
       }
      else Some HlsSettings_empty)"

record HlsOutputSettings =
  H265PackagingType :: "string option"
  HlsSettings :: "HlsSettings option"
  NameModifier :: "string option"
  SegmentModifier :: "string option"

definition HlsOutputSettings_empty :: HlsOutputSettings where
  "HlsOutputSettings_empty =
     \<lparr>HlsOutputSettings.H265PackagingType = None,
      HlsOutputSettings.HlsSettings = None,
      HlsOutputSettings.NameModifier = None,
      HlsOutputSettings.SegmentModifier = None\<rparr>"

text \<open>\<open>expandHlsOutputSettings\<close>, lines 267 to 280.\<close>

definition expandHlsOutputSettings :: "tfvalue list \<Rightarrow> HlsOutputSettings option" where
  "expandHlsOutputSettings s =
     (if length s > 0 then
       do {
         settings \<leftarrow> as_map (Some (s ! 0));
         hls_settings_raw \<leftarrow> as_set (map_of settings ''hls_settings'');
         hls_settings \<leftarrow> expandHlsSettings hls_settings_raw;
         name_modifier \<leftarrow> as_string (map_of settings ''name_modifier'');
         h_265_packaging_type \<leftarrow> as_string (map_of settings ''h_265_packaging_type'');
         segment_modifier \<leftarrow> as_string (map_of settings ''segment_modifier'');
         Some \<lparr>HlsOutputSettings.H265PackagingType = Some h_265_packaging_type,
                 HlsOutputSettings.HlsSettings = Some hls_settings,
                 HlsOutputSettings.NameModifier = Some name_modifier,
                 HlsOutputSettings.SegmentModifier = Some segment_modifier\<rparr>
       }
      else Some HlsOutputSettings_empty)"

record RtmpOutputSettings =
  CertificateMode :: "string option"
  ConnectionRetryInterval :: "int option"
  Destination :: "OutputLocationRef option"
  NumRetries :: "int option"

definition RtmpOutputSettings_empty :: RtmpOutputSettings where
  "RtmpOutputSettings_empty =
     \<lparr>RtmpOutputSettings.CertificateMode = None,
      RtmpOutputSettings.ConnectionRetryInterval = None,
      RtmpOutputSettings.Destination = None,
      RtmpOutputSettings.NumRetries = None\<rparr>"

text \<open>\<open>expandRtmpOutputSettings\<close>, lines 660 to 673.\<close>

definition expandRtmpOutputSettings :: "tfvalue list \<Rightarrow> RtmpOutputSettings option" where
  "expandRtmpOutputSettings s =
     (if length s > 0 then
       do {
         settings \<leftarrow> as_map (Some (s ! 0));
         certificate_mode \<leftarrow> as_string (map_of settings ''certificate_mode'');
         connection_retry_interval \<leftarrow> as_int (map_of settings ''connection_retry_interval'');
         num_retries \<leftarrow> as_int (map_of settings ''num_retries'');
         destination_raw \<leftarrow> as_set (map_of settings ''destination'');
         destination \<leftarrow> expandRtmpOutputDestination destination_raw;
         Some \<lparr>RtmpOutputSettings.CertificateMode = Some certificate_mode,
                 RtmpOutputSettings.ConnectionRetryInterval = Some connection_retry_interval,
                 RtmpOutputSettings.Destination = destination,
                 RtmpOutputSettings.NumRetries = Some num_retries\<rparr>
       }
      else Some RtmpOutputSettings_empty)"

record RtmpGroupSettings =
  AuthenticationScheme :: "string option"
  CacheFullBehavior :: "string option"
  CacheLength :: "int option"
  CaptionData :: "string option"
  InputLossAction :: "string option"
  RestartDelay :: "int option"

definition RtmpGroupSettings_empty :: RtmpGroupSettings where
  "RtmpGroupSettings_empty =
     \<lparr>RtmpGroupSettings.AuthenticationScheme = None,
      RtmpGroupSettings.CacheFullBehavior = None,
      RtmpGroupSettings.CacheLength = None,
      RtmpGroupSettings.CaptionData = None,
      RtmpGroupSettings.InputLossAction = None,
      RtmpGroupSettings.RestartDelay = None\<rparr>"

text \<open>\<open>expandRtmpGroupSettings\<close>, lines 643 to 658.\<close>

definition expandRtmpGroupSettings :: "tfvalue list \<Rightarrow> RtmpGroupSettings option" where
  "expandRtmpGroupSettings s =
     (if length s > 0 then
       do {
         settings \<leftarrow> as_map (Some (s ! 0));
         authentication_scheme \<leftarrow> as_string (map_of settings ''authentication_scheme'');
         cache_full_behavior \<leftarrow> as_string (map_of settings ''cache_full_behavior'');
         cache_length \<leftarrow> as_int (map_of settings ''cache_length'');
         caption_data \<leftarrow> as_string (map_of settings ''caption_data'');
         input_loss_action \<leftarrow> as_string (map_of settings ''input_loss_action'');
         restart_delay \<leftarrow> as_int (map_of settings ''restart_delay'');
         Some \<lparr>RtmpGroupSettings.AuthenticationScheme = Some authentication_scheme,
                 RtmpGroupSettings.CacheFullBehavior = Some cache_full_behavior,
                 RtmpGroupSettings.CacheLength = Some cache_length,
                 RtmpGroupSettings.CaptionData = Some caption_data,
                 RtmpGroupSettings.InputLossAction = Some input_loss_action,
                 RtmpGroupSettings.RestartDelay = Some restart_delay\<rparr>
       }
      else Some RtmpGroupSettings_empty)"

text \<open>\<open>expandCaptionLanguageMapping\<close>, lines 473 to 488.\<close>

fun expandCaptionLanguageMapping_loop ::
  "tfvalue list \<Rightarrow> CaptionLanguageMapping list \<Rightarrow> CaptionLanguageMapping list option" where
  "expandCaptionLanguageMapping_loop [] result = Some result"
| "expandCaptionLanguageMapping_loop (v # rest) result =
     do {
       settings \<leftarrow> as_map (Some v);
       caption_channel \<leftarrow> as_int (map_of settings ''caption_channel'');
       language_code \<leftarrow> as_string (map_of settings ''language_code'');
       language_description \<leftarrow> as_string (map_of settings ''language_description'');
       expandCaptionLanguageMapping_loop rest
         (result @ [\<lparr>CaptionChannel = Some caption_channel,
                     LanguageCode = Some language_code,
                     LanguageDescription = Some language_description\<rparr>])
     }"

definition expandCaptionLanguageMapping ::
  "tfvalue list \<Rightarrow> CaptionLanguageMapping slice option" where
  "expandCaptionLanguageMapping captionMappings =
     (if length captionMappings = 0 then Some NilSlice
      else map_option Slice (expandCaptionLanguageMapping_loop captionMappings []))"

record HlsGroupSettings =
  CaptionLanguageMappings :: "CaptionLanguageMapping slice"
  CaptionLanguageSetting :: "string option"
  ClientCache :: "string option"
  CodecSpecification :: "string option"
  Destination :: "OutputLocationRef option"
  DirectoryStructure :: "string option"
  HlsCdnSettings :: "HlsCdnSettings option"
  HlsId3SegmentTagging :: "string option"
  IFrameOnlyPlaylists :: "string option"
  IndexNSegments :: "int option"
  InputLossAction :: "string option"
  IvInManifest :: "string option"
  IvSource :: "string option"
  KeepSegments :: "int option"
  ManifestCompression :: "string option"
  ManifestDurationFormat :: "string option"
  Mode :: "string option"
  OutputSelection :: "string option"
  ProgramDateTime :: "string option"
  ProgramDateTimePeriod :: "int option"
  RedundantManifest :: "string option"
  SegmentLength :: "int option"
  SegmentationMode :: "string option"
  SegmentsPerSubdirectory :: "int option"
  StreamInfResolution :: "string option"
  TimedMetadataId3Frame :: "string option"
  TimedMetadataId3Period :: "int option"
  TimestampDeltaMilliseconds :: "int option"
  TsFileMode :: "string option"

definition HlsGroupSettings_empty :: HlsGroupSettings where
  "HlsGroupSettings_empty =
     \<lparr>HlsGroupSettings.CaptionLanguageMappings = NilSlice,
      HlsGroupSettings.CaptionLanguageSetting = None,
      HlsGroupSettings.ClientCache = None,
      HlsGroupSettings.CodecSpecification = None,
      HlsGroupSettings.Destination = None,
      HlsGroupSettings.DirectoryStructure = None,
      HlsGroupSettings.HlsCdnSettings = None,
      HlsGroupSettings.HlsId3SegmentTagging = None,
      HlsGroupSettings.IFrameOnlyPlaylists = None,
      HlsGroupSettings.IndexNSegments = None,
      HlsGroupSettings.InputLossAction = None,
      HlsGroupSettings.IvInManifest = None,
      HlsGroupSettings.IvSource = None,
      HlsGroupSettings.KeepSegments = None,
      HlsGroupSettings.ManifestCompression = None,
      HlsGroupSettings.ManifestDurationFormat = None,
      HlsGroupSettings.Mode = None,
      HlsGroupSettings.OutputSelection = None,
      HlsGroupSettings.ProgramDateTime = None,
      HlsGroupSettings.ProgramDateTimePeriod = None,
      HlsGroupSettings.RedundantManifest = None,
      HlsGroupSettings.SegmentLength = None,
      HlsGroupSettings.SegmentationMode = None,
      HlsGroupSettings.SegmentsPerSubdirectory = None,
      HlsGroupSettings.StreamInfResolution = None,
      HlsGroupSettings.TimedMetadataId3Frame = None,
      HlsGroupSettings.TimedMetadataId3Period = None,
      HlsGroupSettings.TimestampDeltaMilliseconds = None,
      HlsGroupSettings.TsFileMode = None\<rparr>"

text \<open>\<open>expandHlsGroupSettings\<close>, lines 433 to 471.\<close>

definition expandHlsGroupSettings :: "tfvalue list \<Rightarrow> HlsGroupSettings option" where
  "expandHlsGroupSettings s =
     (if length s > 0 then
       do {
         settings \<leftarrow> as_map (Some (s ! 0));
         caption_language_setting \<leftarrow> as_string (map_of settings ''caption_language_setting'');
         caption_language_mapping_raw \<leftarrow> as_list (map_of settings ''caption_language_mapping'');
         caption_language_mapping \<leftarrow> expandCaptionLanguageMapping caption_language_mapping_raw;
         codec_specification \<leftarrow> as_string (map_of settings ''codec_specification'');
         client_cache \<leftarrow> as_string (map_of settings ''client_cache'');
         hls_cdn_settings_raw \<leftarrow> as_set (map_of settings ''hls_cdn_settings'');
         hls_cdn_settings \<leftarrow> expandHlsCdnSettings hls_cdn_settings_raw;
         hls_id3_segment_tagging \<leftarrow> as_string (map_of settings ''hls_id3_segment_tagging'');
         index_n_segments \<leftarrow> as_int (map_of settings ''index_n_segments'');
         input_loss_action \<leftarrow> as_string (map_of settings ''input_loss_action'');
         iv_in_manifest \<leftarrow> as_string (map_of settings ''iv_in_manifest'');
         iv_source \<leftarrow> as_string (map_of settings ''iv_source'');
         iframe_only_playlists \<leftarrow> as_string (map_of settings ''iframe_only_playlists'');
         keep_segments \<leftarrow> as_int (map_of settings ''keep_segments'');
         manifest_compression \<leftarrow> as_string (map_of settings ''manifest_compression'');
         manifest_duration_format \<leftarrow> as_string (map_of settings ''manifest_duration_format'');
         mode \<leftarrow> as_string (map_of settings ''mode'');
         output_selection \<leftarrow> as_string (map_of settings ''output_selection'');
         program_date_time \<leftarrow> as_string (map_of settings ''program_date_time'');
         program_date_time_period \<leftarrow> as_int (map_of settings ''program_date_time_period'');
         redundant_manifest \<leftarrow> as_string (map_of settings ''redundant_manifest'');
         segmentation_mode \<leftarrow> as_string (map_of settings ''segmentation_mode'');
         segment_length \<leftarrow> as_int (map_of settings ''segment_length'');
         destination_raw \<leftarrow> as_set (map_of settings ''destination'');
         destination \<leftarrow> expandHlsDestinationRef destination_raw;
         directory_structure \<leftarrow> as_string (map_of settings ''directory_structure'');
         segments_per_subdirectory \<leftarrow> as_int (map_of settings ''segments_per_subdirectory'');
         stream_inf_resolution \<leftarrow> as_string (map_of settings ''stream_inf_resolution'');
         timed_metadata_id3_frame \<leftarrow> as_string (map_of settings ''timed_metadata_id3_frame'');
         timed_metadata_id3_period \<leftarrow> as_int (map_of settings ''timed_metadata_id3_period'');
         timestamp_delta_milliseconds \<leftarrow> as_int (map_of settings ''timestamp_delta_milliseconds'');
         ts_file_mode \<leftarrow> as_string (map_of settings ''ts_file_mode'');
         Some \<lparr>HlsGroupSettings.CaptionLanguageMappings = caption_language_mapping,
                 HlsGroupSettings.CaptionLanguageSetting = Some caption_language_setting,
                 HlsGroupSettings.ClientCache = Some client_cache,
                 HlsGroupSettings.CodecSpecification = Some codec_specification,
                 HlsGroupSettings.Destination = Some destination,
                 HlsGroupSettings.DirectoryStructure = Some directory_structure,
                 HlsGroupSettings.HlsCdnSettings = Some hls_cdn_settings,
                 HlsGroupSettings.HlsId3SegmentTagging = Some hls_id3_segment_tagging,
                 HlsGroupSettings.IFrameOnlyPlaylists = Some iframe_only_playlists,
                 HlsGroupSettings.IndexNSegments = Some index_n_segments,
                 HlsGroupSettings.InputLossAction = Some input_loss_action,
                 HlsGroupSettings.IvInManifest = Some iv_in_manifest,
                 HlsGroupSettings.IvSource = Some iv_source,
                 HlsGroupSettings.KeepSegments = Some keep_segments,
                 HlsGroupSettings.ManifestCompression = Some manifest_compression,
                 HlsGroupSettings.ManifestDurationFormat = Some manifest_duration_format,
                 HlsGroupSettings.Mode = Some mode,
                 HlsGroupSettings.OutputSelection = Some output_selection,
                 HlsGroupSettings.ProgramDateTime = Some program_date_time,
                 HlsGroupSettings.ProgramDateTimePeriod = Some program_date_time_period,
                 HlsGroupSettings.RedundantManifest = Some redundant_manifest,
                 HlsGroupSettings.SegmentLength = Some segment_length,
                 HlsGroupSettings.SegmentationMode = Some segmentation_mode,
                 HlsGroupSettings.SegmentsPerSubdirectory = Some segments_per_subdirectory,
                 HlsGroupSettings.StreamInfResolution = Some stream_inf_resolution,
                 HlsGroupSettings.TimedMetadataId3Frame = Some timed_metadata_id3_frame,
                 HlsGroupSettings.TimedMetadataId3Period = Some timed_metadata_id3_period,
                 HlsGroupSettings.TimestampDeltaMilliseconds = Some timestamp_delta_milliseconds,
                 HlsGroupSettings.TsFileMode = Some ts_file_mode\<rparr>
       }
      else Some HlsGroupSettings_empty)"

record OutputGroupSettings =
  HlsGroupSettings :: "HlsGroupSettings option"
  RtmpGroupSettings :: "RtmpGroupSettings option"

text \<open>\<open>expandOutputGroupSettings\<close>, lines 188 to 213.\<close>

definition expandOutputGroupSettings :: "tfvalue list \<Rightarrow> OutputGroupSettings option" where
  "expandOutputGroupSettings s =
     (if length s > 0 then
       do {
         settings \<leftarrow> as_map (Some (s ! 0));
         let outputGroupSettings =
               \<lparr>OutputGroupSettings.HlsGroupSettings = None,
                OutputGroupSettings.RtmpGroupSettings = None\<rparr>;
         hls_group_settings_raw \<leftarrow> as_set (map_of settings ''hls_group_settings'');
         hlsGroupSettings \<leftarrow> expandHlsGroupSettings hls_group_settings_raw;
         rtmp_group_settings_raw \<leftarrow> as_set (map_of settings ''rtmp_group_settings'');
         rtmpGroupSettings \<leftarrow> expandRtmpGroupSettings rtmp_group_settings_raw;
         let outputGroupSettings =
               (if HlsGroupSettings.Mode hlsGroupSettings \<noteq> None
                then outputGroupSettings
                       \<lparr>OutputGroupSettings.HlsGroupSettings := Some hlsGroupSettings\<rparr>
                else outputGroupSettings);
         let outputGroupSettings =
               (if RtmpGroupSettings.AuthenticationScheme rtmpGroupSettings \<noteq> None
                then outputGroupSettings
                       \<lparr>OutputGroupSettings.RtmpGroupSettings := Some rtmpGroupSettings\<rparr>
                else outputGroupSettings);
         Some outputGroupSettings
       }
      else Some \<lparr>OutputGroupSettings.HlsGroupSettings = None,
                 OutputGroupSettings.RtmpGroupSettings = None\<rparr>)"

record OutputSettings =
  HlsOutputSettings :: "HlsOutputSettings option"
  RtmpOutputSettings :: "RtmpOutputSettings option"

text \<open>
  \<open>expandOutputSettings\<close>, lines 242 to 265. The source compares the expanded structs
  with the zero struct; all their fields are pointers, so a struct equals the zero struct
  exactly when all its fields are nil.
\<close>

definition expandOutputSettings :: "tfvalue list \<Rightarrow> OutputSettings option" where
  "expandOutputSettings s =
     (if length s > 0 then
       do {
         settings \<leftarrow> as_map (Some (s ! 0));
         let outputSettings =
               \<lparr>OutputSettings.HlsOutputSettings = None,
                OutputSettings.RtmpOutputSettings = None\<rparr>;
         hls_output_settings_raw \<leftarrow> as_set (map_of settings ''hls_output_settings'');
         hlsOutputSettings \<leftarrow> expandHlsOutputSettings hls_output_settings_raw;
         rtmp_output_settings_raw \<leftarrow> as_set (map_of settings ''rtmp_output_settings'');
         rtmpOutputSettings \<leftarrow> expandRtmpOutputSettings rtmp_output_settings_raw;
         let outputSettings =
               (if hlsOutputSettings \<noteq> HlsOutputSettings_empty
                then outputSettings
                       \<lparr>OutputSettings.HlsOutputSettings := Some hlsOutputSettings\<rparr>
                else outputSettings);
         let outputSettings =
               (if rtmpOutputSettings \<noteq> RtmpOutputSettings_empty
                then outputSettings
                       \<lparr>OutputSettings.RtmpOutputSettings := Some rtmpOutputSettings\<rparr>
                else outputSettings);
         Some outputSettings
       }
      else Some \<lparr>OutputSettings.HlsOutputSettings = None,
                 OutputSettings.RtmpOutputSettings = None\<rparr>)"

text \<open>The set that a configuration map holds under a key.\<close>

definition tf_set :: "tfvalue \<Rightarrow> string \<Rightarrow> tfvalue list" where
  "tf_set v k =
     (case v of
        TfMap m \<Rightarrow> (case map_of m k of Some (TfSet xs) \<Rightarrow> xs | _ \<Rightarrow> [])
      | _ \<Rightarrow> [])"

section \<open>Sample output settings\<close>

text \<open>
  An element of \<^verbatim>\<open>output_group_settings\<close> with an HLS group and no RTMP group, and an
  element of \<^verbatim>\<open>output_settings\<close> with HLS output settings and no RTMP output settings.
\<close>

definition sample_output_group_settings :: tfvalue where
  "sample_output_group_settings =
     TfMap
       [(''hls_group_settings'',
         TfSet
          [TfMap [(''caption_language_setting'', TfString ''OMIT''),
            (''caption_language_mapping'', TfList []),
            (''codec_specification'', TfString ''RFC_4281''),
            (''client_cache'', TfString ''ENABLED''),
            (''hls_cdn_settings'', TfSet
                   [TfMap [(''hls_basic_put_settings'', TfSet [TfMap [(''connection_retry_interval'', TfInt 1),
                            (''filecache_duration'', TfInt 300),
                            (''num_retries'', TfInt 10),
                            (''restart_delay'', TfInt 15)]])]]),
            (''hls_id3_segment_tagging'', TfString ''DISABLED''),
            (''index_n_segments'', TfInt 10),
            (''input_loss_action'', TfString ''EMIT_OUTPUT''),
            (''iv_in_manifest'', TfString ''INCLUDE''),
            (''iv_source'', TfString ''FOLLOWS_SEGMENT_NUMBER''),
            (''iframe_only_playlists'', TfString ''DISABLED''),
            (''keep_segments'', TfInt 21),
            (''manifest_compression'', TfString ''NONE''),
            (''manifest_duration_format'', TfString ''INTEGER''),
            (''mode'', TfString ''LIVE''),
            (''output_selection'', TfString ''MANIFESTS_AND_SEGMENTS''),
            (''program_date_time'', TfString ''EXCLUDE''),
            (''program_date_time_period'', TfInt 600),
            (''redundant_manifest'', TfString ''DISABLED''),
            (''segmentation_mode'', TfString ''USE_SEGMENT_DURATION''),
            (''segment_length'', TfInt 6),
            (''destination'', TfSet [TfMap [(''destination_ref_id'', TfString ''primary'')]]),
            (''directory_structure'', TfString ''SINGLE_DIRECTORY''),
            (''segments_per_subdirectory'', TfInt 10000),
            (''stream_inf_resolution'', TfString ''INCLUDE''),
            (''timed_metadata_id3_frame'', TfString ''PRIV''),
            (''timed_metadata_id3_period'', TfInt 10),
            (''timestamp_delta_milliseconds'', TfInt 0),
            (''ts_file_mode'', TfString ''SEGMENTED_FILES'')]]),
        (''rtmp_group_settings'', TfSet [])]"

definition sample_output_settings :: tfvalue where
  "sample_output_settings =
     TfMap
       [(''hls_output_settings'',
         TfSet
          [TfMap [(''hls_settings'', TfSet
                   [TfMap [(''standard_hls_settings'', TfSet
                           [TfMap [(''audio_rendition_sets'', TfString ''program_audio''),
                            (''m3u8_settings'', TfSet
                                   [TfMap [(''audio_frames_per_pes'', TfInt 4),
                                    (''audio_pids'', TfString ''492-498''),
                                    (''nielsen_id3_behavior'', TfString ''NO_PASSTHROUGH''),
                                    (''pat_interval'', TfInt 100),
                                    (''pcr_control'', TfString ''PCR_EVERY_PES_PACKET''),
                                    (''pmt_pid'', TfString ''480''),
                                    (''program_num'', TfInt 1),
                                    (''scte_35_behavior'', TfString ''NO_PASSTHROUGH''),
                                    (''scte_35_pid'', TfString ''500''),
                                    (''timed_metadata_behavior'', TfString ''NO_PASSTHROUGH''),
                                    (''timed_metadata_pid'', TfString ''502''),
                                    (''video_pid'', TfString ''481'')]])]]),
                    (''audio_only_hls_settings'', TfSet [])]]),
            (''name_modifier'', TfString ''_1080p''),
            (''h_265_packaging_type'', TfString ''HVC1''),
            (''segment_modifier'', TfString '''')]]),
        (''rtmp_output_settings'', TfSet [])]"

section \<open>Errors, the AWS client and the Terraform plugin SDK\<close>

text \<open>
  A Go \<^verbatim>\<open>error\<close> is an AWS error (\<^verbatim>\<open>awserr.Error\<close>, with its code and message), one
  made by \<^verbatim>\<open>fmt.Errorf\<close> from a format string and its arguments, or one of the three
  errors of the plugin SDK's waiter: \<^verbatim>\<open>resource.NotFoundError\<close> with its number of
  retries, \<^verbatim>\<open>resource.UnexpectedStateError\<close> with the state met and the states
  expected, and \<^verbatim>\<open>resource.TimeoutError\<close> with the last state and the states expected.
  A function that returns \<^verbatim>\<open>error\<close> returns \<open>None\<close> for nil.
\<close>

datatype fmt_arg = ArgString string | ArgError go_error
  and go_error =
      AwsErr string string
    | Errorf string "fmt_arg list"
    | NotFoundError int
    | UnexpectedStateError string "string list"
    | TimeoutError string "string list"

fun strings_HasPrefix :: "string \<Rightarrow> string \<Rightarrow> bool" where
  "strings_HasPrefix s [] = True"
| "strings_HasPrefix [] (p # ps) = False"
| "strings_HasPrefix (c # cs) (p # ps) = (c = p \<and> strings_HasPrefix cs ps)"

fun strings_Contains :: "string \<Rightarrow> string \<Rightarrow> bool" where
  "strings_Contains [] substr = (substr = [])"
| "strings_Contains (c # cs) substr =
     (strings_HasPrefix (c # cs) substr \<or> strings_Contains cs substr)"

text \<open>
  Modelled from the spec: \<^verbatim>\<open>isAWSErr(err, code, message)\<close>, a helper of the provider
  that the delete and read operations call and that is defined outside the files at
  hand. It holds when \<open>err\<close> is an AWS error with the given code whose message contains
  the given text.
\<close>

definition isAWSErr :: "go_error option \<Rightarrow> string \<Rightarrow> string \<Rightarrow> bool" where
  "isAWSErr err code message =
     (case err of
        Some (AwsErr c m) \<Rightarrow> c = code \<and> strings_Contains m message
      | _ \<Rightarrow> False)"

text \<open>
  Modelled from the spec: the constants of the SDK's \<^verbatim>\<open>medialive\<close> and \<^verbatim>\<open>mediapackage\<close>
  packages that the source names: the error code of a missing resource and the
  resource states.
\<close>

definition medialive_ErrCodeNotFoundException :: string where
  "medialive_ErrCodeNotFoundException = ''NotFoundException''"

definition mediapackage_ErrCodeNotFoundException :: string where
  "mediapackage_ErrCodeNotFoundException = ''NotFoundException''"

definition InputStateCreating :: string where
  "InputStateCreating = ''CREATING''"

definition InputStateDetached :: string where
  "InputStateDetached = ''DETACHED''"

definition InputStateAttached :: string where
  "InputStateAttached = ''ATTACHED''"

definition InputStateDeleting :: string where
  "InputStateDeleting = ''DELETING''"

definition InputStateDeleted :: string where
  "InputStateDeleted = ''DELETED''"

definition ChannelStateDeleting :: string where
  "ChannelStateDeleting = ''DELETING''"

definition ChannelStateDeleted :: string where
  "ChannelStateDeleted = ''DELETED''"

definition aws_StringValue :: "string option \<Rightarrow> string" where
  "aws_StringValue p = (case p of None \<Rightarrow> [] | Some s \<Rightarrow> s)"

text \<open>\<^verbatim>\<open>time.Duration\<close> counts nanoseconds.\<close>

definition time_Second :: int where
  "time_Second = 1000000000"

definition time_Minute :: int where
  "time_Minute = 60 * time_Second"

subsection \<open>\<^verbatim>\<open>schema.ResourceData\<close>\<close>

text \<open>
  The resource data of the plugin SDK, as far as the operations use it: the resource id,
  the create timeout, and the attributes. \<open>rd_attrs\<close> holds, for every key of the
  resource's schema, its current value, which is the zero value of the key's type when
  the configuration leaves it unset; so the constructor of the stored value is the
  key's schema type.
\<close>

record ResourceData =
  rd_id :: string
  rd_timeout_create :: int
  rd_attrs :: "(string \<times> tfvalue) list"

definition d_Id :: "ResourceData \<Rightarrow> string" where
  "d_Id d = rd_id d"

definition d_SetId :: "ResourceData \<Rightarrow> string \<Rightarrow> ResourceData" where
  "d_SetId d v = d\<lparr>rd_id := v\<rparr>"

definition d_Get :: "ResourceData \<Rightarrow> string \<Rightarrow> tfvalue option" where
  "d_Get d key = map_of (rd_attrs d) key"

definition is_zero_value :: "tfvalue \<Rightarrow> bool" where
  "is_zero_value v =
     (case v of
        TfString s \<Rightarrow> s = []
      | TfInt i \<Rightarrow> i = 0
      | TfFloat x \<Rightarrow> x = 0
      | TfBool b \<Rightarrow> \<not> b
      | TfList xs \<Rightarrow> xs = []
      | TfSet xs \<Rightarrow> xs = []
      | TfMap m \<Rightarrow> m = [])"

text \<open>\<^verbatim>\<open>d.GetOk(key)\<close>: the value, and whether it is set to something other than the zero value.\<close>

definition d_GetOk :: "ResourceData \<Rightarrow> string \<Rightarrow> tfvalue option \<times> bool" where
  "d_GetOk d key =
     (case map_of (rd_attrs d) key of
        None \<Rightarrow> (None, False)
      | Some v \<Rightarrow> (Some v, \<not> is_zero_value v))"

definition same_type :: "tfvalue \<Rightarrow> tfvalue \<Rightarrow> bool" where
  "same_type a b =
     (case (a, b) of
        (TfString _, TfString _) \<Rightarrow> True
      | (TfInt _, TfInt _) \<Rightarrow> True
      | (TfFloat _, TfFloat _) \<Rightarrow> True
      | (TfBool _, TfBool _) \<Rightarrow> True
      | (TfList _, TfList _) \<Rightarrow> True
      | (TfSet _, TfSet _) \<Rightarrow> True
      | (TfMap _, TfMap _) \<Rightarrow> True
      | _ \<Rightarrow> False)"

text \<open>
  \<^verbatim>\<open>d.Set(key, value)\<close> stores a value of the key's type and returns an error, leaving
  the data as it was, for a key outside the schema or a value of another type.
\<close>

definition d_Set :: "ResourceData \<Rightarrow> string \<Rightarrow> tfvalue \<Rightarrow> go_error option \<times> ResourceData" where
  "d_Set d key v =
     (case map_of (rd_attrs d) key of
        None \<Rightarrow> (Some (Errorf ''Invalid address to set: %s'' [ArgString key]), d)
      | Some old \<Rightarrow>
          if same_type old v
          then (None, d\<lparr>rd_attrs := AList.update key v (rd_attrs d)\<rparr>)
          else (Some (Errorf ''%s: unconvertible type'' [ArgString key]), d))"

subsection \<open>\<^verbatim>\<open>resource.StateChangeConf\<close>\<close>

text \<open>
  What \<^verbatim>\<open>Refresh\<close> returns: whether the result object is non-nil, the state string and
  the error. A refresh function reads the AWS side, the world \<open>'w\<close>, and may change
  it; \<open>None\<close> is a panic inside the function.
\<close>

type_synonym refresh_result = "bool \<times> string \<times> go_error option"

record 'w StateChangeConf =
  Pending :: "string list"
  Target :: "string list"
  Refresh :: "'w \<Rightarrow> (refresh_result \<times> 'w) option"
  Timeout :: int
  Delay :: int
  MinTimeout :: int
  NotFoundChecks :: int
  ContinuousTargetOccurence :: int

subsection \<open>The AWS client and the other libraries\<close>

text \<open>
  The SDK structs of the MediaLive input calls, with the fields that the provider sets or
  reads. An API call returns its output (nil for \<open>None\<close>) and its error.
\<close>

record InputDestinationRequest =
  StreamName :: "string option"

record CreateInputInput =
  Destinations :: "InputDestinationRequest slice"
  InputSecurityGroups :: "string option slice"
  Name :: "string option"
  RequestId :: "string option"
  RoleArn :: "string option"
  Tags :: "(string \<times> string) list option"
  Type :: "string option"

record InputDestination =
  Ip :: "string option"
  Port :: "string option"
  Url :: "string option"

record medialive_Input =
  Id :: "string option"

record CreateInputOutput =
  Input :: "medialive_Input option"

record DescribeInputOutput =
  Arn :: "string option"
  Destinations :: "InputDestination list"
  InputClass :: "string option"
  Name :: "string option"
  State :: "string option"
  Tags :: "(string \<times> string) list option"
  Type :: "string option"

record DescribeChannelOutput =
  State :: "string option"

text \<open>\<^verbatim>\<open>net/url.URL\<close>: the provider reads its \<^verbatim>\<open>Path\<close> only.\<close>

record URL =
  Path :: string

text \<open>
  Everything the operations call outside the files at hand: the AWS API (each call takes
  the world and returns the new one), \<^verbatim>\<open>(*StateChangeConf).WaitForState\<close> of the plugin
  SDK, the tag conversions of the provider's \<^verbatim>\<open>keyvaluetags\<close> package,
  \<^verbatim>\<open>uuid.NewRandom\<close> and \<^verbatim>\<open>url.Parse\<close>. The operations take them as the parameter
  \<open>conn\<close>.
\<close>

record 'w AWSClient =
  CreateInput :: "CreateInputInput \<Rightarrow> 'w \<Rightarrow> (CreateInputOutput option \<times> go_error option) \<times> 'w"
  DescribeInput :: "string option \<Rightarrow> 'w \<Rightarrow> (DescribeInputOutput option \<times> go_error option) \<times> 'w"
  DeleteInput :: "string option \<Rightarrow> 'w \<Rightarrow> go_error option \<times> 'w"
  DescribeChannel :: "string option \<Rightarrow> 'w \<Rightarrow> (DescribeChannelOutput option \<times> go_error option) \<times> 'w"
  DeleteChannel :: "string option \<Rightarrow> 'w \<Rightarrow> go_error option \<times> 'w"
  DeleteOriginEndpoint :: "string option \<Rightarrow> 'w \<Rightarrow> go_error option \<times> 'w"
  WaitForState :: "'w StateChangeConf \<Rightarrow> 'w \<Rightarrow> (go_error option \<times> 'w) option"
  MedialiveTags :: "(string \<times> tfvalue) list \<Rightarrow> (string \<times> string) list"
  MedialiveKeyValueTagsMap :: "(string \<times> string) list option \<Rightarrow> tfvalue"
  uuid_NewRandom :: "'w \<Rightarrow> string \<times> 'w"
  url_Parse :: "string \<Rightarrow> URL option \<times> string option"

section \<open>MediaLive input (aws/resource_aws_media_live_input.go)\<close>

text \<open>
  The file holds two revisions of the resource: the earlier one in lines 1 to 269, the
  later one in lines 271 to 609. The later revision's functions keep their names; the
  earlier revision's functions that differ carry the suffix \<open>_old\<close>. An operation
  returns its error and the resource data it leaves, with the world; \<open>None\<close> is a panic.
\<close>

subsection \<open>Flattening and expanding\<close>

definition obtainStreamName :: "'w AWSClient \<Rightarrow> string option \<Rightarrow> string option" where
  "obtainStreamName conn streamUrl =
     (case streamUrl of
        None \<Rightarrow> None
      | Some s \<Rightarrow>
          (case url_Parse conn s of
             (_, Some err) \<Rightarrow> Some []
           | (None, None) \<Rightarrow> None
           | (Some resp, None) \<Rightarrow>
               if 1 > length (Path resp) then None
               else Some (take (length (Path resp) - 1) (drop 1 (Path resp)))))"

fun flattenInputDestinations_loop ::
  "'w AWSClient \<Rightarrow> InputDestination list \<Rightarrow> (string \<times> tfvalue) list list
     \<Rightarrow> (string \<times> tfvalue) list list option" where
  "flattenInputDestinations_loop conn [] result = Some result"
| "flattenInputDestinations_loop conn (destination # rest) result =
     do {
       stream_name \<leftarrow> obtainStreamName conn (Url destination);
       flattenInputDestinations_loop conn rest
         (result @ [[(''url'', TfString (aws_StringValue (Url destination))),
                     (''port'', TfString (aws_StringValue (Ip destination))),
                     (''ip'', TfString (aws_StringValue (Port destination))),
                     (''stream_name'', TfString stream_name)]])
     }"

definition flattenInputDestinations ::
  "'w AWSClient \<Rightarrow> InputDestination list \<Rightarrow> (string \<times> tfvalue) list list option" where
  "flattenInputDestinations conn inputDestinations =
     flattenInputDestinations_loop conn inputDestinations []"

fun expandInputDestinations_loop ::
  "tfvalue list \<Rightarrow> InputDestinationRequest list \<Rightarrow> InputDestinationRequest list option" where
  "expandInputDestinations_loop [] result = Some result"
| "expandInputDestinations_loop (destination # rest) result =
     do {
       r \<leftarrow> as_map (Some destination);
       stream_name \<leftarrow> as_string (map_of r ''stream_name'');
       expandInputDestinations_loop rest (result @ [\<lparr>StreamName = Some stream_name\<rparr>])
     }"

text \<open>
  \<open>expandInputDestinations\<close> (lines 577 to 591); the earlier revision has the same
  function under the name \<^verbatim>\<open>expandDestinations\<close> (lines 255 to 269).
\<close>

definition expandInputDestinations :: "tfvalue list \<Rightarrow> InputDestinationRequest slice option" where
  "expandInputDestinations destinations =
     (if length destinations = 0 then Some NilSlice
      else map_option Slice (expandInputDestinations_loop destinations []))"

text \<open>
  The loop that fills \<open>inputSecurityGroups\<close>, a slice made with the length of the list, at
  the indices \<open>i\<close>. It is the body of \<open>convertInputSecurityGroups\<close> (lines 593 to 600)
  and stands in line in the earlier revision's create operation (lines 106 to 112).
\<close>

fun inputSecurityGroups_loop ::
  "tfvalue list \<Rightarrow> nat \<Rightarrow> string option list \<Rightarrow> string option list option" where
  "inputSecurityGroups_loop [] i inputSecurityGroups = Some inputSecurityGroups"
| "inputSecurityGroups_loop (groupId # rest) i inputSecurityGroups =
     do {
       s \<leftarrow> as_string (Some groupId);
       inputSecurityGroups_loop rest (i + 1) (inputSecurityGroups[i := Some s])
     }"

definition convertInputSecurityGroups :: "tfvalue option \<Rightarrow> string option slice option" where
  "convertInputSecurityGroups raw =
     do {
       list \<leftarrow> as_list raw;
       inputSecurityGroups \<leftarrow> inputSecurityGroups_loop list 0 (replicate (length list) None);
       Some (Slice inputSecurityGroups)
     }"

subsection \<open>Waiting for deletion\<close>

definition mediaLiveInputRefreshFunc ::
  "'w AWSClient \<Rightarrow> string \<Rightarrow> 'w \<Rightarrow> (refresh_result \<times> 'w) option" where
  "mediaLiveInputRefreshFunc conn inputId w =
     (case DescribeInput conn (Some inputId) w of
        ((input, err), w1) \<Rightarrow>
          if isAWSErr err medialive_ErrCodeNotFoundException []
          then Some ((False, InputStateDeleted, None), w1)
          else (case err of
                  Some e \<Rightarrow>
                    Some ((False, [],
                           Some (Errorf ''error reading MediaLive Input(%s): %s''
                                   [ArgString inputId, ArgError e])), w1)
                | None \<Rightarrow>
                    (case input of
                       None \<Rightarrow> Some ((False, InputStateDeleted, None), w1)
                     | Some i \<Rightarrow>
                         Some ((True, aws_StringValue (DescribeInputOutput.State i), None), w1))))"

text \<open>The \<open>stateConf\<close> of \<open>waitForMediaLiveInputDeletion\<close>, lines 541 to 550.\<close>

definition waitForMediaLiveInputDeletion_stateConf ::
  "'w AWSClient \<Rightarrow> string \<Rightarrow> 'w StateChangeConf" where
  "waitForMediaLiveInputDeletion_stateConf conn inputId =
     \<lparr>Pending = [InputStateDetached, InputStateAttached, InputStateDeleting],
      Target = [InputStateDeleted],
      Refresh = mediaLiveInputRefreshFunc conn inputId,
      Timeout = 30 * time_Minute,
      Delay = 0,
      MinTimeout = 0,
      NotFoundChecks = 1,
      ContinuousTargetOccurence = 0\<rparr>"

text \<open>The same in the earlier revision, lines 232 to 242.\<close>

definition waitForMediaLiveInputDeletion_stateConf_old ::
  "'w AWSClient \<Rightarrow> string \<Rightarrow> 'w StateChangeConf" where
  "waitForMediaLiveInputDeletion_stateConf_old conn inputId =
     \<lparr>Pending = [InputStateDetached, InputStateAttached, InputStateDeleting,
                 InputStateDeleted],
      Target = [InputStateDeleted],
      Refresh = mediaLiveInputRefreshFunc conn inputId,
      Timeout = 30 * time_Minute,
      Delay = 0,
      MinTimeout = 0,
      NotFoundChecks = 1,
      ContinuousTargetOccurence = 0\<rparr>"

definition waitForMediaLiveInputDeletion ::
  "'w AWSClient \<Rightarrow> string \<Rightarrow> 'w \<Rightarrow> (go_error option \<times> 'w) option" where
  "waitForMediaLiveInputDeletion conn inputId w =
     do {
       (err, w1) \<leftarrow> WaitForState conn (waitForMediaLiveInputDeletion_stateConf conn inputId) w;
       if isAWSErr err medialive_ErrCodeNotFoundException [] then Some (None, w1)
       else Some (err, w1)
     }"

definition waitForMediaLiveInputDeletion_old ::
  "'w AWSClient \<Rightarrow> string \<Rightarrow> 'w \<Rightarrow> (go_error option \<times> 'w) option" where
  "waitForMediaLiveInputDeletion_old conn inputId w =
     do {
       (err, w1) \<leftarrow> WaitForState conn (waitForMediaLiveInputDeletion_stateConf_old conn inputId) w;
       if isAWSErr err medialive_ErrCodeNotFoundException [] then Some (None, w1)
       else Some (err, w1)
     }"

subsection \<open>Read\<close>

text \<open>\<open>resourceAwsMediaLiveInputRead\<close>, lines 419 to 450.\<close>

definition resourceAwsMediaLiveInputRead ::
  "'w AWSClient \<Rightarrow> ResourceData \<Rightarrow> 'w \<Rightarrow> (go_error option \<times> ResourceData \<times> 'w) option" where
  "resourceAwsMediaLiveInputRead conn d w =
     (case DescribeInput conn (Some (d_Id d)) w of
        ((resp, err), w1) \<Rightarrow>
          (case err of
             Some e \<Rightarrow>
               if isAWSErr err medialive_ErrCodeNotFoundException []
               then Some (None, d_SetId d [], w1)
               else Some (Some (Errorf ''Error describing MediaLive Input(%s): %s''
                                  [ArgString (d_Id d), ArgError e]), d, w1)
           | None \<Rightarrow>
               do {
                 r \<leftarrow> resp;
                 flat \<leftarrow> flattenInputDestinations conn (DescribeInputOutput.Destinations r);
                 (case d_Set d ''destinations'' (TfList (map TfMap flat)) of
                    (Some e, d1) \<Rightarrow>
                      Some (Some (Errorf ''error setting destinations: %s'' [ArgError e]), d1, w1)
                  | (None, d1) \<Rightarrow>
                      (let d2 = snd (d_Set d1 ''arn''
                                  (TfString (aws_StringValue (DescribeInputOutput.Arn r))));
                           d3 = snd (d_Set d2 ''type''
                                  (TfString (aws_StringValue (DescribeInputOutput.Type r))));
                           d4 = snd (d_Set d3 ''name''
                                  (TfString (aws_StringValue (DescribeInputOutput.Name r))));
                           d5 = snd (d_Set d4 ''input_class''
                                  (TfString (aws_StringValue (DescribeInputOutput.InputClass r))))
                       in (case d_Set d5 ''tags''
                                  (MedialiveKeyValueTagsMap conn (DescribeInputOutput.Tags r)) of
                             (Some e, d6) \<Rightarrow>
                               Some (Some (Errorf ''error setting tags: %s'' [ArgError e]), d6, w1)
                           | (None, d6) \<Rightarrow> Some (None, d6, w1))))
               }))"

text \<open>The earlier revision, lines 128 to 152.\<close>

definition resourceAwsMediaLiveInputRead_old ::
  "'w AWSClient \<Rightarrow> ResourceData \<Rightarrow> 'w \<Rightarrow> (go_error option \<times> ResourceData \<times> 'w) option" where
  "resourceAwsMediaLiveInputRead_old conn d w =
     (case DescribeInput conn (Some (d_Id d)) w of
        ((resp, err), w1) \<Rightarrow>
          (case err of
             Some e \<Rightarrow>
               if isAWSErr err medialive_ErrCodeNotFoundException []
               then Some (None, d_SetId d [], w1)
               else Some (Some (Errorf ''Error describing MediaLive Input(%s): %s''
                                  [ArgString (d_Id d), ArgError e]), d, w1)
           | None \<Rightarrow>
               do {
                 r \<leftarrow> resp;
                 let d1 = snd (d_Set d ''arn''
                            (TfString (aws_StringValue (DescribeInputOutput.Arn r))));
                 (case d_Set d1 ''tags''
                         (MedialiveKeyValueTagsMap conn (DescribeInputOutput.Tags r)) of
                    (Some e, d2) \<Rightarrow>
                      Some (Some (Errorf ''error setting tags: %s'' [ArgError e]), d2, w1)
                  | (None, d2) \<Rightarrow> Some (None, d2, w1))
               }))"

subsection \<open>Create\<close>

text \<open>
  The request that \<open>resourceAwsMediaLiveInputCreate\<close> builds before it calls
  \<^verbatim>\<open>CreateInput\<close>, lines 365 to 383.
\<close>

definition resourceAwsMediaLiveInputCreate_input ::
  "'w AWSClient \<Rightarrow> ResourceData \<Rightarrow> 'w \<Rightarrow> (CreateInputInput \<times> 'w) option" where
  "resourceAwsMediaLiveInputCreate_input conn d w =
     do {
       input_type \<leftarrow> as_string (d_Get d ''input_type'');
       name \<leftarrow> as_string (d_Get d ''name'');
       (request_id, w1) \<leftarrow> Some (uuid_NewRandom conn w);
       let input = \<lparr>CreateInputInput.Destinations = NilSlice,
                    InputSecurityGroups = NilSlice,
                    CreateInputInput.Name = Some name,
                    RequestId = Some request_id,
                    RoleArn = None,
                    CreateInputInput.Tags = None,
                    CreateInputInput.Type = Some input_type\<rparr>;
       input \<leftarrow>
         (case d_GetOk d ''destinations'' of
            (v, ok) \<Rightarrow>
              if ok then
                do {
                  l \<leftarrow> as_list v;
                  if length l > 0 then
                    do {
                      ds \<leftarrow> expandInputDestinations l;
                      Some (input\<lparr>CreateInputInput.Destinations := ds\<rparr>)
                    }
                  else Some input
                }
              else Some input);
       input \<leftarrow>
         (case d_GetOk d ''input_security_groups'' of
            (raw, ok) \<Rightarrow>
              if ok then
                do {
                  groups \<leftarrow> convertInputSecurityGroups raw;
                  Some (input\<lparr>InputSecurityGroups := groups\<rparr>)
                }
              else Some input);
       v \<leftarrow> as_map (d_Get d ''tags'');
       Some (if length v > 0
             then input\<lparr>CreateInputInput.Tags := Some (MedialiveTags conn v)\<rparr>
             else input, w1)
     }"

text \<open>The \<open>createStateConf\<close> of the create operation, lines 392 to 409.\<close>

definition resourceAwsMediaLiveInputCreate_createStateConf ::
  "'w AWSClient \<Rightarrow> ResourceData \<Rightarrow> 'w StateChangeConf" where
  "resourceAwsMediaLiveInputCreate_createStateConf conn d =
     \<lparr>Pending = [''CREATING''],
      Target = [''DETACHED'', ''ATTACHED''],
      Refresh =
        (\<lambda>w. case DescribeInput conn (Some (d_Id d)) w of
                ((resp, err), w1) \<Rightarrow>
                  (case err of
                     Some e \<Rightarrow> Some ((True, [], Some e), w1)
                   | None \<Rightarrow>
                       do {
                         r \<leftarrow> resp;
                         Some ((True, aws_StringValue (DescribeInputOutput.State r), None), w1)
                       })),
      Timeout = rd_timeout_create d,
      Delay = 10 * time_Second,
      MinTimeout = 5 * time_Second,
      NotFoundChecks = 0,
      ContinuousTargetOccurence = 5\<rparr>"

text \<open>\<open>resourceAwsMediaLiveInputCreate\<close>, lines 362 to 417.\<close>

definition resourceAwsMediaLiveInputCreate ::
  "'w AWSClient \<Rightarrow> ResourceData \<Rightarrow> 'w \<Rightarrow> (go_error option \<times> ResourceData \<times> 'w) option" where
  "resourceAwsMediaLiveInputCreate conn d w =
     do {
       (input, w1) \<leftarrow> resourceAwsMediaLiveInputCreate_input conn d w;
       (case CreateInput conn input w1 of
          ((resp, err), w2) \<Rightarrow>
            (case err of
               Some e \<Rightarrow>
                 Some (Some (Errorf ''Error creating MediaLive Input: %s'' [ArgError e]), d, w2)
             | None \<Rightarrow>
                 do {
                   r \<leftarrow> resp;
                   i \<leftarrow> Input r;
                   let d1 = d_SetId d (aws_StringValue (medialive_Input.Id i));
                   (err, w3) \<leftarrow>
                     WaitForState conn (resourceAwsMediaLiveInputCreate_createStateConf conn d1) w2;
                   (case err of
                      Some e \<Rightarrow>
                        Some (Some (Errorf ''Error waiting MediaLive Input (%s) to be created: %s''
                                      [ArgString (d_Id d1), ArgError e]), d1, w3)
                    | None \<Rightarrow> resourceAwsMediaLiveInputRead conn d1 w3)
                 }))
     }"

text \<open>
  The earlier revision's request, lines 93 to 116. The list built from
  \<^verbatim>\<open>input_security_groups\<close> is a local variable of the \<^verbatim>\<open>if\<close> block.
\<close>

definition resourceAwsMediaLiveInputCreate_input_old ::
  "'w AWSClient \<Rightarrow> ResourceData \<Rightarrow> CreateInputInput option" where
  "resourceAwsMediaLiveInputCreate_input_old conn d =
     do {
       input_type \<leftarrow> as_string (d_Get d ''input_type'');
       name \<leftarrow> as_string (d_Get d ''name'');
       request_id \<leftarrow> as_string (d_Get d ''request_id'');
       role_arn \<leftarrow> as_string (d_Get d ''role_arn'');
       let input = \<lparr>CreateInputInput.Destinations = NilSlice,
                    InputSecurityGroups = NilSlice,
                    CreateInputInput.Name = Some name,
                    RequestId = Some request_id,
                    RoleArn = Some role_arn,
                    CreateInputInput.Tags = None,
                    CreateInputInput.Type = Some input_type\<rparr>;
       input \<leftarrow>
         (case d_GetOk d ''destinations'' of
            (v, ok) \<Rightarrow>
              if ok then
                do {
                  l \<leftarrow> as_list v;
                  if length l > 0 then
                    do {
                      ds \<leftarrow> expandInputDestinations l;
                      Some (input\<lparr>CreateInputInput.Destinations := ds\<rparr>)
                    }
                  else Some input
                }
              else Some input);
       _ \<leftarrow>
         (case d_GetOk d ''input_security_groups'' of
            (raw, ok) \<Rightarrow>
              if ok then
                do {
                  list \<leftarrow> as_list raw;
                  inputSecurityGroups \<leftarrow>
                    inputSecurityGroups_loop list 0 (replicate (length list) None);
                  Some ()
                }
              else Some ());
       v \<leftarrow> as_map (d_Get d ''tags'');
       Some (if length v > 0
             then input\<lparr>CreateInputInput.Tags := Some (MedialiveTags conn v)\<rparr>
             else input)
     }"

text \<open>The earlier revision of the create operation, lines 90 to 126.\<close>

definition resourceAwsMediaLiveInputCreate_old ::
  "'w AWSClient \<Rightarrow> ResourceData \<Rightarrow> 'w \<Rightarrow> (go_error option \<times> ResourceData \<times> 'w) option" where
  "resourceAwsMediaLiveInputCreate_old conn d w =
     do {
       input \<leftarrow> resourceAwsMediaLiveInputCreate_input_old conn d;
       (case CreateInput conn input w of
          ((resp, err), w1) \<Rightarrow>
            (case err of
               Some e \<Rightarrow>
                 Some (Some (Errorf ''Error creating MediaLive Input: %s'' [ArgError e]), d, w1)
             | None \<Rightarrow>
                 do {
                   r \<leftarrow> resp;
                   i \<leftarrow> Input r;
                   resourceAwsMediaLiveInputRead_old conn
                     (d_SetId d (aws_StringValue (medialive_Input.Id i))) w1
                 }))
     }"

subsection \<open>Delete\<close>

text \<open>\<open>resourceAwsMediaLiveInputDelete\<close>, lines 497 to 516.\<close>

definition resourceAwsMediaLiveInputDelete ::
  "'w AWSClient \<Rightarrow> ResourceData \<Rightarrow> 'w \<Rightarrow> (go_error option \<times> ResourceData \<times> 'w) option" where
  "resourceAwsMediaLiveInputDelete conn d w =
     (case DeleteInput conn (Some (d_Id d)) w of
        (err, w1) \<Rightarrow>
          (case err of
             Some e \<Rightarrow>
               if isAWSErr err medialive_ErrCodeNotFoundException [] then Some (None, d, w1)
               else Some (Some (Errorf ''Error deleting MediaLive Input(%s): %s''
                                  [ArgString (d_Id d), ArgError e]), d, w1)
           | None \<Rightarrow>
               do {
                 (err, w2) \<leftarrow> waitForMediaLiveInputDeletion conn (d_Id d) w1;
                 (case err of
                    Some e \<Rightarrow>
                      Some (Some (Errorf ''Error waiting for deleting MediaLive Input(%s): %s''
                                    [ArgString (d_Id d), ArgError e]), d, w2)
                  | None \<Rightarrow> Some (None, d, w2))
               }))"

text \<open>The earlier revision, lines 188 to 207, with its own waiter.\<close>

definition resourceAwsMediaLiveInputDelete_old ::
  "'w AWSClient \<Rightarrow> ResourceData \<Rightarrow> 'w \<Rightarrow> (go_error option \<times> ResourceData \<times> 'w) option" where
  "resourceAwsMediaLiveInputDelete_old conn d w =
     (case DeleteInput conn (Some (d_Id d)) w of
        (err, w1) \<Rightarrow>
          (case err of
             Some e \<Rightarrow>
               if isAWSErr err medialive_ErrCodeNotFoundException [] then Some (None, d, w1)
               else Some (Some (Errorf ''Error deleting MediaLive Input(%s): %s''
                                  [ArgString (d_Id d), ArgError e]), d, w1)
           | None \<Rightarrow>
               do {
                 (err, w2) \<leftarrow> waitForMediaLiveInputDeletion_old conn (d_Id d) w1;
                 (case err of
                    Some e \<Rightarrow>
                      Some (Some (Errorf ''Error waiting for deleting MediaLive Input(%s): %s''
                                    [ArgString (d_Id d), ArgError e]), d, w2)
                  | None \<Rightarrow> Some (None, d, w2))
               }))"

section \<open>MediaLive channel and MediaPackage origin endpoint: waiting and deleting\<close>

text \<open>From aws/resource_aws_media_live_channel.go, lines 1526 to 1586.\<close>

definition mediaLiveChannelRefreshFunc ::
  "'w AWSClient \<Rightarrow> string \<Rightarrow> 'w \<Rightarrow> (refresh_result \<times> 'w) option" where
  "mediaLiveChannelRefreshFunc conn channelId w =
     (case DescribeChannel conn (Some channelId) w of
        ((channel, err), w1) \<Rightarrow>
          if isAWSErr err medialive_ErrCodeNotFoundException []
          then Some ((False, ChannelStateDeleted, None), w1)
          else (case err of
                  Some e \<Rightarrow>
                    Some ((False, [],
                           Some (Errorf ''error reading MediaLive Input(%s): %s''
                                   [ArgString channelId, ArgError e])), w1)
                | None \<Rightarrow>
                    (case channel of
                       None \<Rightarrow> Some ((False, ChannelStateDeleted, None), w1)
                     | Some c \<Rightarrow>
                         Some ((True, aws_StringValue (DescribeChannelOutput.State c), None), w1))))"

definition waitForMediaLiveChannelDeletion_stateConf ::
  "'w AWSClient \<Rightarrow> string \<Rightarrow> 'w StateChangeConf" where
  "waitForMediaLiveChannelDeletion_stateConf conn channelId =
     \<lparr>Pending = [ChannelStateDeleting],
      Target = [ChannelStateDeleted],
      Refresh = mediaLiveChannelRefreshFunc conn channelId,
      Timeout = 30 * time_Minute,
      Delay = 0,
      MinTimeout = 0,
      NotFoundChecks = 1,
      ContinuousTargetOccurence = 0\<rparr>"

definition waitForMediaLiveChannelDeletion ::
  "'w AWSClient \<Rightarrow> string \<Rightarrow> 'w \<Rightarrow> (go_error option \<times> 'w) option" where
  "waitForMediaLiveChannelDeletion conn channelId w =
     do {
       (err, w1) \<leftarrow> WaitForState conn (waitForMediaLiveChannelDeletion_stateConf conn channelId) w;
       if isAWSErr err medialive_ErrCodeNotFoundException [] then Some (None, w1)
       else Some (err, w1)
     }"

definition resourceAwsMediaLiveChannelDelete ::
  "'w AWSClient \<Rightarrow> ResourceData \<Rightarrow> 'w \<Rightarrow> (go_error option \<times> ResourceData \<times> 'w) option" where
  "resourceAwsMediaLiveChannelDelete conn d w =
     (case DeleteChannel conn (Some (d_Id d)) w of
        (err, w1) \<Rightarrow>
          (case err of
             Some e \<Rightarrow>
               if isAWSErr err medialive_ErrCodeNotFoundException [] then Some (None, d, w1)
               else Some (Some (Errorf ''Error deleting MediaLive Channel(%s): %s''
                                  [ArgString (d_Id d), ArgError e]), d, w1)
           | None \<Rightarrow>
               do {
                 (err, w2) \<leftarrow> waitForMediaLiveChannelDeletion conn (d_Id d) w1;
                 (case err of
                    Some e \<Rightarrow>
                      Some (Some (Errorf ''Error waiting for deleting MediaLive Channel(%s): %s''
                                    [ArgString (d_Id d), ArgError e]), d, w2)
                  | None \<Rightarrow> Some (None, d, w2))
               }))"

text \<open>
  The \<open>createStateConf\<close> of \<open>resourceAwsMediaLiveChannelCreate\<close>, lines 1406 to 1423.
\<close>

definition resourceAwsMediaLiveChannelCreate_createStateConf ::
  "'w AWSClient \<Rightarrow> ResourceData \<Rightarrow> 'w StateChangeConf" where
  "resourceAwsMediaLiveChannelCreate_createStateConf conn d =
     \<lparr>Pending = [''CREATING''],
      Target = [''IDLE''],
      Refresh =
        (\<lambda>w. case DescribeChannel conn (Some (d_Id d)) w of
                ((resp, err), w1) \<Rightarrow>
                  (case err of
                     Some e \<Rightarrow> Some ((True, [], Some e), w1)
                   | None \<Rightarrow>
                       do {
                         r \<leftarrow> resp;
                         Some ((True, aws_StringValue (DescribeChannelOutput.State r), None), w1)
                       })),
      Timeout = rd_timeout_create d,
      Delay = 10 * time_Second,
      MinTimeout = 5 * time_Second,
      NotFoundChecks = 0,
      ContinuousTargetOccurence = 5\<rparr>"

text \<open>
  \<open>resourceAwsMediaPackageOriginEndpointDelete\<close>, the revision with the API call (the
  source file of the origin endpoint resource, lines 270 to 286).
\<close>

definition resourceAwsMediaPackageOriginEndpointDelete ::
  "'w AWSClient \<Rightarrow> ResourceData \<Rightarrow> 'w \<Rightarrow> (go_error option \<times> ResourceData \<times> 'w) option" where
  "resourceAwsMediaPackageOriginEndpointDelete conn d w =
     (case DeleteOriginEndpoint conn (Some (d_Id d)) w of
        (err, w1) \<Rightarrow>
          (case err of
             Some e \<Rightarrow>
               if isAWSErr err mediapackage_ErrCodeNotFoundException [] then Some (None, d, w1)
               else Some (Some (Errorf ''Error deleting MediaPackage Origin Endpoint(%s): %s''
                                  [ArgString (d_Id d), ArgError e]), d, w1)
           | None \<Rightarrow> Some (None, d, w1)))"

section \<open>The waiter of the plugin SDK\<close>

text \<open>
  Modelled from the spec: the poll-for-state-transition waiter that the spec attributes
  to the helper library of the Terraform plugin SDK,
  \<^verbatim>\<open>(*resource.StateChangeConf).WaitForState\<close>, whose source is not among the files at
  hand. The loop below follows that function round by round. A round calls \<^verbatim>\<open>Refresh\<close>:
  \<^item> an error of the refresh function ends the wait with that error;
  \<^item> a nil result with an empty \<^verbatim>\<open>Target\<close> counts as an occurrence of the target;
  \<^item> any other nil result adds a not-found tick, and the wait ends with a
    \<^verbatim>\<open>NotFoundError\<close> once the ticks exceed \<^verbatim>\<open>NotFoundChecks\<close>;
  \<^item> a state in \<^verbatim>\<open>Target\<close> counts as an occurrence, and the wait ends without error
    at \<^verbatim>\<open>ContinuousTargetOccurence\<close> occurrences;
  \<^item> a state in \<^verbatim>\<open>Pending\<close> resets the occurrences;
  \<^item> any other state ends the wait with an \<^verbatim>\<open>UnexpectedStateError\<close> when
    \<^verbatim>\<open>Pending\<close> is not empty.
  The intervals between the rounds and the timeout are real time; the first argument is
  the number of rounds that fit into the timeout, and the wait ends with a
  \<^verbatim>\<open>TimeoutError\<close> when they are used up. \<open>notfoundTick\<close> and \<open>targetOccurence\<close>
  are the counters of the source, \<open>lastState\<close> is the state of the last round.
\<close>

fun WaitForState_loop ::
  "nat \<Rightarrow> 'w StateChangeConf \<Rightarrow> int \<Rightarrow> int \<Rightarrow> string \<Rightarrow> 'w \<Rightarrow> (go_error option \<times> 'w) option" where
  "WaitForState_loop 0 conf notfoundTick targetOccurence lastState w =
     Some (Some (TimeoutError lastState (Target conf)), w)"
| "WaitForState_loop (Suc rounds) conf notfoundTick targetOccurence lastState w =
     do {
       ((res, currentState, err), w1) \<leftarrow> Refresh conf w;
       (case err of
          Some e \<Rightarrow> Some (Some e, w1)
        | None \<Rightarrow>
            if \<not> res \<and> length (Target conf) = 0 then
              (if ContinuousTargetOccurence conf = targetOccurence + 1 then Some (None, w1)
               else WaitForState_loop rounds conf notfoundTick (targetOccurence + 1)
                      currentState w1)
            else if \<not> res then
              (if notfoundTick + 1 > NotFoundChecks conf
               then Some (Some (NotFoundError (notfoundTick + 1)), w1)
               else WaitForState_loop rounds conf (notfoundTick + 1) targetOccurence
                      currentState w1)
            else if currentState \<in> set (Target conf) then
              (if ContinuousTargetOccurence conf = targetOccurence + 1 then Some (None, w1)
               else if currentState \<in> set (Pending conf)
               then WaitForState_loop rounds conf 0 0 currentState w1
               else WaitForState_loop rounds conf 0 (targetOccurence + 1) currentState w1)
            else if currentState \<in> set (Pending conf) then
              WaitForState_loop rounds conf 0 0 currentState w1
            else if length (Pending conf) > 0 then
              Some (Some (UnexpectedStateError currentState (Target conf)), w1)
            else WaitForState_loop rounds conf 0 targetOccurence currentState w1)
     }"

text \<open>
  The waiter first replaces a zero \<^verbatim>\<open>NotFoundChecks\<close> by 20 and a zero
  \<^verbatim>\<open>ContinuousTargetOccurence\<close> by 1.
\<close>

definition WaitForState_sdk ::
  "nat \<Rightarrow> 'w StateChangeConf \<Rightarrow> 'w \<Rightarrow> (go_error option \<times> 'w) option" where
  "WaitForState_sdk rounds conf w =
     WaitForState_loop rounds
       (conf\<lparr>NotFoundChecks := (if NotFoundChecks conf = 0 then 20 else NotFoundChecks conf),
             ContinuousTargetOccurence :=
               (if ContinuousTargetOccurence conf = 0 then 1
                else ContinuousTargetOccurence conf)\<rparr>)
       0 0 [] w"

section \<open>A recording client for concrete runs\<close>

text \<open>
  The concrete runs below need a client. The world of \<open>sample_conn\<close> is the list of
  calls made so far; each call appends itself and answers with a fixed response:
  \<^verbatim>\<open>CreateInput\<close> succeeds with the id 7654321, the delete calls return \<open>delete_err\<close>,
  the describe calls return \<open>describe\<close> and the channel's state, and
  \<^verbatim>\<open>WaitForState\<close> returns \<open>wait_err\<close>.
\<close>

datatype api_call =
    CallCreateInput CreateInputInput
  | CallDescribeInput "string option"
  | CallDeleteInput "string option"
  | CallDescribeChannel "string option"
  | CallDeleteChannel "string option"
  | CallDeleteOriginEndpoint "string option"
  | CallWaitForState "string list" "string list"

text \<open>
  What \<^verbatim>\<open>url.Parse\<close> returns on the URLs of the concrete runs: the path of
  \<^verbatim>\<open>rtmp://203.0.113.7:1935/live/a\<close> is \<^verbatim>\<open>/live/a\<close>; a URL without a path, such as
  \<^verbatim>\<open>rtmp://host\<close> or the empty string, parses without error to an empty path.
\<close>

definition sample_url_Parse :: "string \<Rightarrow> URL option \<times> string option" where
  "sample_url_Parse s =
     (if s = ''rtmp://203.0.113.7:1935/live/a'' then (Some \<lparr>Path = ''/live/a''\<rparr>, None)
      else if s = ''rtmp://host'' then (Some \<lparr>Path = []\<rparr>, None)
      else if s = [] then (Some \<lparr>Path = []\<rparr>, None)
      else (None, Some ''not one of the sample URLs''))"

definition sample_conn ::
  "go_error option \<Rightarrow> go_error option \<Rightarrow> DescribeInputOutput option \<times> go_error option
     \<Rightarrow> api_call list AWSClient" where
  "sample_conn delete_err wait_err describe =
     \<lparr>CreateInput =
        (\<lambda>req w. ((Some \<lparr>Input = Some \<lparr>medialive_Input.Id = Some ''7654321''\<rparr>\<rparr>, None),
                   w @ [CallCreateInput req])),
      DescribeInput = (\<lambda>i w. (describe, w @ [CallDescribeInput i])),
      DeleteInput = (\<lambda>i w. (delete_err, w @ [CallDeleteInput i])),
      DescribeChannel =
        (\<lambda>i w. ((Some \<lparr>DescribeChannelOutput.State = Some ''CREATING''\<rparr>, None),
                 w @ [CallDescribeChannel i])),
      DeleteChannel = (\<lambda>i w. (delete_err, w @ [CallDeleteChannel i])),
      DeleteOriginEndpoint = (\<lambda>i w. (delete_err, w @ [CallDeleteOriginEndpoint i])),
      WaitForState = (\<lambda>conf w. Some (wait_err, w @ [CallWaitForState (Pending conf) (Target conf)])),
      MedialiveTags = (\<lambda>m. []),
      MedialiveKeyValueTagsMap = (\<lambda>t. TfMap []),
      uuid_NewRandom = (\<lambda>w. (''6ba7b810-9dad-41d1-80b4-00c04fd430c8'', w)),
      url_Parse = sample_url_Parse\<rparr>"

definition not_found :: go_error where
  "not_found = AwsErr ''NotFoundException'' ''resource not found''"

text \<open>An input that AWS reports in the state \<^verbatim>\<open>CREATING\<close>.\<close>

definition creating_input :: DescribeInputOutput where
  "creating_input =
     \<lparr>Arn = Some ''arn:aws:medialive:eu-west-1:123456789012:input:7654321'',
      DescribeInputOutput.Destinations =
        [\<lparr>Ip = Some ''203.0.113.7'', Port = Some ''1935'',
          InputDestination.Url = Some ''rtmp://203.0.113.7:1935/live/a''\<rparr>],
      InputClass = Some ''STANDARD'',
      DescribeInputOutput.Name = Some ''studio'',
      DescribeInputOutput.State = Some ''CREATING'',
      DescribeInputOutput.Tags = None,
      DescribeInputOutput.Type = Some ''RTMP_PUSH''\<rparr>"

text \<open>Resource data of an input in the earlier and in the later revision's schema.\<close>

definition sample_data_old :: ResourceData where
  "sample_data_old =
     \<lparr>rd_id = [],
      rd_timeout_create = 20 * time_Minute,
      rd_attrs =
        [(''arn'', TfString []),
         (''destinations'', TfList [TfMap [(''ip'', TfString []), (''port'', TfString []),
                                           (''url'', TfString []),
                                           (''stream_name'', TfString ''live/a'')]]),
         (''input_type'', TfString ''RTMP_PUSH''),
         (''name'', TfString ''studio''),
         (''role_arn'', TfString ''arn:aws:iam::123456789012:role/MediaLive''),
         (''request_id'', TfString ''req-1''),
         (''input_security_groups'', TfList [TfString ''1111111'', TfString ''2222222'']),
         (''tags'', TfMap [])]\<rparr>"

definition sample_data :: ResourceData where
  "sample_data =
     \<lparr>rd_id = [],
      rd_timeout_create = 20 * time_Minute,
      rd_attrs =
        [(''arn'', TfString []),
         (''destinations'', TfList [TfMap [(''ip'', TfString []), (''port'', TfString []),
                                           (''url'', TfString []),
                                           (''stream_name'', TfString ''live/a'')]]),
         (''input_type'', TfString ''RTMP_PUSH''),
         (''name'', TfString ''studio''),
         (''role_arn'', TfString []),
         (''input_security_groups'', TfList [TfString ''1111111'', TfString ''2222222'']),
         (''input_class'', TfInt 0),
         (''tags'', TfMap [])]\<rparr>"

section \<open>A world in which the resource is gone after the delete call\<close>

text \<open>
  The delete calls of \<open>gone_conn\<close> succeed, and every later describe call reports
  \<^verbatim>\<open>NotFoundException\<close>. Its waiter is the plugin SDK's, with time for five rounds.
\<close>

definition gone_conn :: "api_call list AWSClient" where
  "gone_conn =
     (sample_conn None None (None, Some not_found))
       \<lparr>DescribeChannel := (\<lambda>i w. ((None, Some not_found), w @ [CallDescribeChannel i])),
        WaitForState := WaitForState_sdk 5\<rparr>"

section \<open>Properties of Canonicalize\<close>

lemma strings_Split_nonempty: "strings_Split s sep \<noteq> []"
  by (induction s) (auto split: list.splits)

lemma checkPartition_recognized:
  "checkPartition p =
     (if p \<in> {''aws'', ''aws-cn'', ''aws-us-gov''} then None
      else Some (''partion '' @ p @ '' is not recognized''))"
  by (simp add: checkPartition_def AwsPartitionID_def AwsCnPartitionID_def AwsUsGovPartitionID_def)

text \<open>
  Splitting a string joined from pieces without the separator gives the pieces back, so
  the segments of a resource such as \<^verbatim>\<open>assumed-role/Accounting/Team/Mary\<close> are what
  \<open>strings_Split\<close> returns.
\<close>

lemma strings_Split_no_sep:
  "sep \<notin> set p \<Longrightarrow> strings_Split (p @ sep # rest) sep = p # strings_Split rest sep"
  by (induction p) (auto split: list.splits)

lemma strings_Split_single: "sep \<notin> set p \<Longrightarrow> strings_Split p sep = [p]"
  by (induction p) (auto split: list.splits)

lemma strings_Split_Join:
  "segs \<noteq> [] \<Longrightarrow> \<forall>p \<in> set segs. sep \<notin> set p \<Longrightarrow>
   strings_Split (strings_Join segs [sep]) sep = segs"
proof (induction segs "[sep]" rule: strings_Join.induct)
  case 1
  then show ?case by simp
next
  case (2 p)
  then show ?case by (simp add: strings_Split_single)
next
  case (3 p q ps)
  then show ?case by (simp add: strings_Split_no_sep)
qed

text \<open>
  The assumed role in terms of the segments: a resource made of \<^verbatim>\<open>assumed-role\<close>, one or
  more role segments and a session name becomes the IAM role with the role segments.
\<close>

lemma Canonicalize_assumed_role:
  assumes "parse arn = Inr p"
    and "Partition p \<in> {''aws'', ''aws-cn'', ''aws-us-gov''}"
    and "Service p = ''sts''"
    and "Resource p = strings_Join (''assumed-role'' # segs @ [session]) ''/''"
    and "segs \<noteq> []"
    and "\<forall>s \<in> set (segs @ [session]). CHR ''/'' \<notin> set s"
  shows "Canonicalize parse arn =
           Inr (''arn:'' @ Partition p @ '':iam::'' @ AccountID p @ '':role/''
                @ strings_Join segs ''/'')"
proof -
  have "strings_Split (Resource p) CHR ''/'' = ''assumed-role'' # segs @ [session]"
    unfolding assms(4) using assms(6) by (intro strings_Split_Join) auto
  moreover have "checkPartition (Partition p) = None"
    using assms(2) by (simp add: checkPartition_recognized)
  moreover have "take (length segs) (segs @ [session]) = segs"
    by simp
  ultimately show ?thesis
    using assms(1,3,5) by (simp add: Canonicalize_def Let_def)
qed

text \<open>
  C10. For an ARN that parses and whose partition is one of aws, aws-cn and aws-us-gov,
  \<open>Canonicalize\<close> returns the ARN unchanged for the IAM resource types role, user and
  root and for the STS resource type federated-user; for an STS assumed-role with at
  least three slash-separated segments it returns the IAM role ARN built from the
  partition, the account and the segments between the resource type and the last one.
  Every other input (a parse error, another partition, another service or resource type,
  an assumed-role with fewer than three segments) gives an error.
\<close>

theorem Canonicalize_cases:
  "(\<forall>err. parse arn = Inl err \<longrightarrow> isl (Canonicalize parse arn)) \<and>
   (\<forall>p. parse arn = Inr p \<longrightarrow>
      (Partition p \<notin> {''aws'', ''aws-cn'', ''aws-us-gov''} \<longrightarrow> isl (Canonicalize parse arn)) \<and>
      (Partition p \<in> {''aws'', ''aws-cn'', ''aws-us-gov''} \<longrightarrow>
         (let parts = strings_Split (Resource p) CHR ''/''; rtype = hd parts
          in (Service p = ''iam'' \<and> rtype \<in> {''role'', ''user'', ''root''} \<longrightarrow>
                Canonicalize parse arn = Inr arn) \<and>
             (Service p = ''sts'' \<and> rtype = ''federated-user'' \<longrightarrow>
                Canonicalize parse arn = Inr arn) \<and>
             (Service p = ''sts'' \<and> rtype = ''assumed-role'' \<and> 3 \<le> length parts \<longrightarrow>
                Canonicalize parse arn =
                  Inr (''arn:'' @ Partition p @ '':iam::'' @ AccountID p @ '':role/''
                       @ strings_Join (butlast (tl parts)) ''/'')) \<and>
             (\<not> (Service p = ''iam'' \<and> rtype \<in> {''role'', ''user'', ''root''}) \<and>
              \<not> (Service p = ''sts'' \<and> rtype = ''federated-user'') \<and>
              \<not> (Service p = ''sts'' \<and> rtype = ''assumed-role'' \<and> 3 \<le> length parts) \<longrightarrow>
                isl (Canonicalize parse arn)))))"
proof (intro conjI allI impI)
  fix err assume "parse arn = Inl err"
  then show "isl (Canonicalize parse arn)"
    by (simp add: Canonicalize_def)
next
  fix p assume "parse arn = Inr p" and "Partition p \<notin> {''aws'', ''aws-cn'', ''aws-us-gov''}"
  then show "isl (Canonicalize parse arn)"
    by (simp add: Canonicalize_def checkPartition_recognized)
next
  fix p assume p: "parse arn = Inr p"
    and recognized: "Partition p \<in> {''aws'', ''aws-cn'', ''aws-us-gov''}"
  have cp: "checkPartition (Partition p) = None"
    using recognized by (simp add: checkPartition_recognized)
  have unfolded: "Canonicalize parse arn =
    (let parts = strings_Split (Resource p) CHR ''/''; resource = hd parts
     in if Service p = ''sts'' then
          (if resource = ''federated-user'' then Inr arn
           else if resource = ''assumed-role'' then
             (if length parts < 3 then Inl (AssumedRoleWithoutRole arn)
              else Inr (''arn:'' @ Partition p @ '':iam::'' @ AccountID p @ '':role/''
                        @ strings_Join (butlast (tl parts)) ''/''))
           else Inl (UnrecognizedResource (Resource p) ''sts''))
        else if Service p = ''iam'' then
          (if resource = ''role'' \<or> resource = ''user'' \<or> resource = ''root''
           then Inr arn
           else Inl (UnrecognizedResource (Resource p) ''iam''))
        else Inl (ServiceNotValid (Service p) arn))"
    by (simp add: Canonicalize_def p cp Let_def butlast_conv_take drop_Suc)
  show "let parts = strings_Split (Resource p) CHR ''/''; rtype = hd parts
          in (Service p = ''iam'' \<and> rtype \<in> {''role'', ''user'', ''root''} \<longrightarrow>
                Canonicalize parse arn = Inr arn) \<and>
             (Service p = ''sts'' \<and> rtype = ''federated-user'' \<longrightarrow>
                Canonicalize parse arn = Inr arn) \<and>
             (Service p = ''sts'' \<and> rtype = ''assumed-role'' \<and> 3 \<le> length parts \<longrightarrow>
                Canonicalize parse arn =
                  Inr (''arn:'' @ Partition p @ '':iam::'' @ AccountID p @ '':role/''
                       @ strings_Join (butlast (tl parts)) ''/'')) \<and>
             (\<not> (Service p = ''iam'' \<and> rtype \<in> {''role'', ''user'', ''root''}) \<and>
              \<not> (Service p = ''sts'' \<and> rtype = ''federated-user'') \<and>
              \<not> (Service p = ''sts'' \<and> rtype = ''assumed-role'' \<and> 3 \<le> length parts) \<longrightarrow>
                isl (Canonicalize parse arn))"
    unfolding unfolded Let_def by auto
qed

theorem Canonicalize_cases_witness:
  "Canonicalize
     (\<lambda>s. Inr \<lparr>Partition = ''aws'', Service = ''sts'', Region = '''',
               AccountID = ''123456789012'',
               Resource = ''assumed-role/Accounting/Team/Mary''\<rparr>)
     ''arn:aws:sts::123456789012:assumed-role/Accounting/Team/Mary''
   = Inr ''arn:aws:iam::123456789012:role/Accounting/Team''"
  using Canonicalize_cases
    [of "\<lambda>s. Inr \<lparr>Partition = ''aws'', Service = ''sts'', Region = '''',
               AccountID = ''123456789012'',
               Resource = ''assumed-role/Accounting/Team/Mary''\<rparr>"
        "''arn:aws:sts::123456789012:assumed-role/Accounting/Team/Mary''"]
  by simp

section \<open>Properties of expandDestinations\<close>

lemma has_string_as_string:
  "has_string (TfMap m) k \<Longrightarrow> as_string (map_of m k) = Some (tf_string (TfMap m) k)"
  by (auto simp: has_string_def as_string_def tf_string_def split: option.splits tfvalue.splits)

lemma has_list_as_list:
  "has_list (TfMap m) k \<Longrightarrow> as_list (map_of m k) = Some (tf_list (TfMap m) k)"
  by (auto simp: has_list_def as_list_def tf_list_def split: option.splits tfvalue.splits)

lemma has_string_is_map: "has_string v k \<Longrightarrow> \<exists>m. v = TfMap m"
  by (cases v) (simp_all add: has_string_def)

lemma expandOutputDestinationSettings_loop_schema:
  "list_all destination_settings_schema vs \<Longrightarrow>
   expandOutputDestinationSettings_loop vs acc = Some (acc @ map settings_entry_of vs)"
proof (induction vs arbitrary: acc)
  case Nil
  then show ?case by simp
next
  case (Cons v vs)
  from Cons.prems have v: "destination_settings_schema v"
    and vs: "list_all destination_settings_schema vs" by simp_all
  from v obtain m where m: "v = TfMap m"
    using has_string_is_map by (auto simp: destination_settings_schema_def)
  from v show ?case
    unfolding m
    by (simp add: destination_settings_schema_def has_string_as_string as_map_def
        Cons.IH [OF vs] settings_entry_of_def)
qed

lemma expandOutputDestinationSettings_schema:
  "list_all destination_settings_schema vs \<Longrightarrow>
   expandOutputDestinationSettings vs = Some (settings_of vs)"
  by (simp add: expandOutputDestinationSettings_def settings_of_def
      expandOutputDestinationSettings_loop_schema)

lemma expandDestinations_loop_schema:
  "list_all destination_schema ds \<Longrightarrow>
   expandDestinations_loop ds acc = Some (acc @ map destination_of ds)"
proof (induction ds arbitrary: acc)
  case Nil
  then show ?case by simp
next
  case (Cons d ds)
  from Cons.prems have d: "destination_schema d"
    and ds: "list_all destination_schema ds" by simp_all
  from d obtain m where m: "d = TfMap m"
    using has_string_is_map by (auto simp: destination_schema_def)
  from d show ?case
    unfolding m
    by (simp add: destination_schema_def has_string_as_string has_list_as_list as_map_def
        expandOutputDestinationSettings_schema Cons.IH [OF ds] destination_of_def)
qed

text \<open>
  C7. On an empty \<^verbatim>\<open>destinations\<close> list \<open>expandDestinations\<close> returns nil. On a
  non-empty list that follows the schema it returns a list of the same length whose
  i-th element has the i-th map's \<^verbatim>\<open>id\<close> as \<open>Id\<close> and, as \<open>Settings\<close>, the
  element-wise translation of that map's \<^verbatim>\<open>settings\<close> list, each entry carrying the
  configured \<^verbatim>\<open>password_param\<close>, \<^verbatim>\<open>stream_name\<close>, \<^verbatim>\<open>url\<close> and \<^verbatim>\<open>username\<close>.
\<close>

theorem expandDestinations_translates:
  "expandDestinations [] = Some NilSlice \<and>
   (ds \<noteq> [] \<and> list_all destination_schema ds \<longrightarrow>
      (\<exists>out. expandDestinations ds = Some (Slice out) \<and>
             length out = length ds \<and>
             (\<forall>i < length ds.
                OutputDestination.Id (out ! i) = Some (tf_string (ds ! i) ''id'') \<and>
                Settings (out ! i) = settings_of (tf_list (ds ! i) ''settings''))))"
proof (intro conjI impI)
  show "expandDestinations [] = Some NilSlice"
    by (simp add: expandDestinations_def)
next
  assume a: "ds \<noteq> [] \<and> list_all destination_schema ds"
  then have "expandDestinations ds = Some (Slice (map destination_of ds))"
    by (simp add: expandDestinations_def expandDestinations_loop_schema)
  moreover have "\<forall>i < length ds.
      OutputDestination.Id (map destination_of ds ! i) = Some (tf_string (ds ! i) ''id'') \<and>
      Settings (map destination_of ds ! i) = settings_of (tf_list (ds ! i) ''settings'')"
    by (simp add: destination_of_def)
  ultimately show "\<exists>out. expandDestinations ds = Some (Slice out) \<and>
             length out = length ds \<and>
             (\<forall>i < length ds.
                OutputDestination.Id (out ! i) = Some (tf_string (ds ! i) ''id'') \<and>
                Settings (out ! i) = settings_of (tf_list (ds ! i) ''settings''))"
    by (intro exI [of _ "map destination_of ds"]) simp
qed

theorem expandDestinations_translates_witness:
  "expandDestinations
     [TfMap [(''id'', TfString ''primary''),
             (''settings'',
              TfList [TfMap [(''password_param'', TfString ''/medialive/pw''),
                             (''stream_name'', TfString ''live''),
                             (''url'', TfString ''rtmp://203.0.113.7/app''),
                             (''username'', TfString ''encoder'')]])]]
   = Some (Slice [\<lparr>OutputDestination.Id = Some ''primary'',
                   Settings = Slice [\<lparr>PasswordParam = Some ''/medialive/pw'',
                                      OutputDestinationSettings.StreamName = Some ''live'',
                                      OutputDestinationSettings.Url = Some ''rtmp://203.0.113.7/app'',
                                      Username = Some ''encoder''\<rparr>]\<rparr>])"
  using expandDestinations_translates
    [of "[TfMap [(''id'', TfString ''primary''),
             (''settings'',
              TfList [TfMap [(''password_param'', TfString ''/medialive/pw''),
                             (''stream_name'', TfString ''live''),
                             (''url'', TfString ''rtmp://203.0.113.7/app''),
                             (''username'', TfString ''encoder'')]])]]"]
  by (simp add: expandDestinations_def expandOutputDestinationSettings_def
      as_map_def as_string_def as_list_def)

section \<open>Properties of expandH264Settings\<close>

lemma has_int_as_int:
  "has_int (TfMap m) k \<Longrightarrow> as_int (map_of m k) = Some (tf_int (TfMap m) k)"
  by (auto simp: has_int_def as_int_def tf_int_def split: option.splits tfvalue.splits)

lemma has_float_as_float64:
  "has_float (TfMap m) k \<Longrightarrow> \<exists>x. as_float64 (map_of m k) = Some x"
  by (auto simp: has_float_def as_float64_def split: option.splits tfvalue.splits)

text \<open>
  The later revision does what the specification says: on a non-empty set whose first element
  follows the schema it returns settings with the configured \<^verbatim>\<open>framerate_control\<close>,
  and with the numerator and the denominator set exactly when that string is
  \<^verbatim>\<open>SPECIFIED\<close>.
\<close>

lemma expandH264Settings_framerate:
  assumes "s \<noteq> []" and "h264_settings_schema (s ! 0)"
  shows "\<exists>h. expandH264Settings s = Some h \<and>
           FramerateControl h = Some (tf_string (s ! 0) ''framerate_control'') \<and>
           (if tf_string (s ! 0) ''framerate_control'' = ''SPECIFIED''
            then FramerateNumerator h = Some (tf_int (s ! 0) ''framerate_numerator'') \<and>
                 FramerateDenominator h = Some (tf_int (s ! 0) ''framerate_denominator'')
            else FramerateNumerator h = None \<and> FramerateDenominator h = None)"
proof -
  from assms(2) obtain m where m: "s ! 0 = TfMap m"
    using has_string_is_map by (auto simp: h264_settings_schema_def)
  obtain gop_size where g: "as_float64 (map_of m ''gop_size'') = Some gop_size"
    using assms(2) has_float_as_float64 unfolding m h264_settings_schema_def by blast
  show ?thesis
  proof (cases "tf_string (TfMap m) ''framerate_control'' = ''SPECIFIED''")
    case True
    with assms show ?thesis
      unfolding m h264_settings_schema_def expandH264Settings_def
      by (simp add: has_string_as_string has_int_as_int g as_map_def m)
  next
    case False
    with assms show ?thesis
      unfolding m h264_settings_schema_def expandH264Settings_def
      by (simp add: has_string_as_string has_int_as_int g as_map_def m)
  qed
qed

lemma expandH264Settings_sample:
  "map_option (\<lambda>h. (FramerateControl h, FramerateNumerator h, FramerateDenominator h))
     (expandH264Settings [sample_h264_settings])
   = Some (Some ''INITIALIZE_FROM_SOURCE'', None, None)"
  by (simp add: expandH264Settings_def sample_h264_settings_def as_map_def as_string_def
      as_int_def as_float64_def)

text \<open>
  C5. The specification asks that the numerator and the denominator stay nil unless
  \<^verbatim>\<open>framerate_control\<close> is \<^verbatim>\<open>SPECIFIED\<close>. The earlier revision of the expander
  sets both from the configuration whatever the control says: for settings that take
  the frame rate from the source it returns the numerator 0 and the denominator 0.
\<close>

theorem expandH264Settings_old_always_sets_framerate:
  "map_option (\<lambda>h. (FramerateControl h, FramerateNumerator h, FramerateDenominator h))
     (expandH264Settings_old [sample_h264_settings])
   = Some (Some ''INITIALIZE_FROM_SOURCE'', Some 0, Some 0)"
  by (simp add: expandH264Settings_old_def sample_h264_settings_def as_map_def as_string_def
      as_int_def as_float64_def)

section \<open>Properties of expandOutputGroupSettings and expandOutputSettings\<close>

lemma expandHlsGroupSettings_Mode:
  "expandHlsGroupSettings s = Some h \<Longrightarrow> HlsGroupSettings.Mode h \<noteq> None \<longleftrightarrow> s \<noteq> []"
  by (auto simp: expandHlsGroupSettings_def HlsGroupSettings_empty_def bind_eq_Some_conv
      split: if_splits)

lemma expandRtmpGroupSettings_AuthenticationScheme:
  "expandRtmpGroupSettings s = Some r \<Longrightarrow>
   RtmpGroupSettings.AuthenticationScheme r \<noteq> None \<longleftrightarrow> s \<noteq> []"
  by (auto simp: expandRtmpGroupSettings_def RtmpGroupSettings_empty_def bind_eq_Some_conv
      split: if_splits)

lemma expandHlsOutputSettings_empty:
  "expandHlsOutputSettings s = Some h \<Longrightarrow> h \<noteq> HlsOutputSettings_empty \<longleftrightarrow> s \<noteq> []"
  by (auto simp: expandHlsOutputSettings_def HlsOutputSettings_empty_def bind_eq_Some_conv
      split: if_splits)

lemma expandRtmpOutputSettings_empty:
  "expandRtmpOutputSettings s = Some r \<Longrightarrow> r \<noteq> RtmpOutputSettings_empty \<longleftrightarrow> s \<noteq> []"
  by (auto simp: expandRtmpOutputSettings_def RtmpOutputSettings_empty_def bind_eq_Some_conv
      split: if_splits)

lemma as_set_tf_set: "as_set (map_of m k) = Some xs \<Longrightarrow> tf_set (TfMap m) k = xs"
  by (auto simp: as_set_def tf_set_def split: option.splits tfvalue.splits)

lemma as_map_Some: "as_map (Some v) = Some m \<Longrightarrow> v = TfMap m"
  by (auto simp: as_map_def split: tfvalue.splits)

lemma expandOutputGroupSettings_attached:
  assumes "expandOutputGroupSettings s = Some ogs"
  shows "(\<forall>h. OutputGroupSettings.HlsGroupSettings ogs = Some h \<longrightarrow>
              HlsGroupSettings.Mode h \<noteq> None \<and> s \<noteq> [] \<and>
              tf_set (s ! 0) ''hls_group_settings'' \<noteq> [])"
    and "(\<forall>r. OutputGroupSettings.RtmpGroupSettings ogs = Some r \<longrightarrow>
              RtmpGroupSettings.AuthenticationScheme r \<noteq> None \<and> s \<noteq> [] \<and>
              tf_set (s ! 0) ''rtmp_group_settings'' \<noteq> [])"
proof -
  show "\<forall>h. OutputGroupSettings.HlsGroupSettings ogs = Some h \<longrightarrow>
              HlsGroupSettings.Mode h \<noteq> None \<and> s \<noteq> [] \<and>
              tf_set (s ! 0) ''hls_group_settings'' \<noteq> []"
  proof (cases "s = []")
    case True
    with assms show ?thesis by (auto simp: expandOutputGroupSettings_def)
  next
    case False
    with assms obtain m hraw h rraw r where m: "as_map (Some (s ! 0)) = Some m"
      and hraw: "as_set (map_of m ''hls_group_settings'') = Some hraw"
      and h: "expandHlsGroupSettings hraw = Some h"
      and rraw: "as_set (map_of m ''rtmp_group_settings'') = Some rraw"
      and r: "expandRtmpGroupSettings rraw = Some r"
      and ogs: "ogs = \<lparr>OutputGroupSettings.HlsGroupSettings =
                         (if HlsGroupSettings.Mode h \<noteq> None then Some h else None),
                       OutputGroupSettings.RtmpGroupSettings =
                         (if RtmpGroupSettings.AuthenticationScheme r \<noteq> None then Some r
                          else None)\<rparr>"
      by (auto simp: expandOutputGroupSettings_def bind_eq_Some_conv Let_def)
    from m have sm: "s ! 0 = TfMap m" by (rule as_map_Some)
    show ?thesis
      using False expandHlsGroupSettings_Mode [OF h] as_set_tf_set [OF hraw]
      by (auto simp: ogs sm)
  qed
  show "\<forall>r. OutputGroupSettings.RtmpGroupSettings ogs = Some r \<longrightarrow>
              RtmpGroupSettings.AuthenticationScheme r \<noteq> None \<and> s \<noteq> [] \<and>
              tf_set (s ! 0) ''rtmp_group_settings'' \<noteq> []"
  proof (cases "s = []")
    case True
    with assms show ?thesis by (auto simp: expandOutputGroupSettings_def)
  next
    case False
    with assms obtain m hraw h rraw r where m: "as_map (Some (s ! 0)) = Some m"
      and hraw: "as_set (map_of m ''hls_group_settings'') = Some hraw"
      and h: "expandHlsGroupSettings hraw = Some h"
      and rraw: "as_set (map_of m ''rtmp_group_settings'') = Some rraw"
      and r: "expandRtmpGroupSettings rraw = Some r"
      and ogs: "ogs = \<lparr>OutputGroupSettings.HlsGroupSettings =
                         (if HlsGroupSettings.Mode h \<noteq> None then Some h else None),
                       OutputGroupSettings.RtmpGroupSettings =
                         (if RtmpGroupSettings.AuthenticationScheme r \<noteq> None then Some r
                          else None)\<rparr>"
      by (auto simp: expandOutputGroupSettings_def bind_eq_Some_conv Let_def)
    from m have sm: "s ! 0 = TfMap m" by (rule as_map_Some)
    show ?thesis
      using False expandRtmpGroupSettings_AuthenticationScheme [OF r] as_set_tf_set [OF rraw]
      by (auto simp: ogs sm)
  qed
qed

lemma expandOutputSettings_attached:
  assumes "expandOutputSettings s = Some os"
  shows "(\<forall>h. OutputSettings.HlsOutputSettings os = Some h \<longrightarrow>
              h \<noteq> HlsOutputSettings_empty \<and> s \<noteq> [] \<and>
              tf_set (s ! 0) ''hls_output_settings'' \<noteq> [])"
    and "(\<forall>r. OutputSettings.RtmpOutputSettings os = Some r \<longrightarrow>
              r \<noteq> RtmpOutputSettings_empty \<and> s \<noteq> [] \<and>
              tf_set (s ! 0) ''rtmp_output_settings'' \<noteq> [])"
proof -
  show "\<forall>h. OutputSettings.HlsOutputSettings os = Some h \<longrightarrow>
              h \<noteq> HlsOutputSettings_empty \<and> s \<noteq> [] \<and>
              tf_set (s ! 0) ''hls_output_settings'' \<noteq> []"
  proof (cases "s = []")
    case True
    with assms show ?thesis by (auto simp: expandOutputSettings_def)
  next
    case False
    with assms obtain m hraw h rraw r where m: "as_map (Some (s ! 0)) = Some m"
      and hraw: "as_set (map_of m ''hls_output_settings'') = Some hraw"
      and h: "expandHlsOutputSettings hraw = Some h"
      and rraw: "as_set (map_of m ''rtmp_output_settings'') = Some rraw"
      and r: "expandRtmpOutputSettings rraw = Some r"
      and os: "os = \<lparr>OutputSettings.HlsOutputSettings =
                        (if h \<noteq> HlsOutputSettings_empty then Some h else None),
                      OutputSettings.RtmpOutputSettings =
                        (if r \<noteq> RtmpOutputSettings_empty then Some r else None)\<rparr>"
      by (auto simp: expandOutputSettings_def bind_eq_Some_conv Let_def)
    from m have sm: "s ! 0 = TfMap m" by (rule as_map_Some)
    show ?thesis
      using False expandHlsOutputSettings_empty [OF h] as_set_tf_set [OF hraw]
      by (auto simp: os sm)
  qed
  show "\<forall>r. OutputSettings.RtmpOutputSettings os = Some r \<longrightarrow>
              r \<noteq> RtmpOutputSettings_empty \<and> s \<noteq> [] \<and>
              tf_set (s ! 0) ''rtmp_output_settings'' \<noteq> []"
  proof (cases "s = []")
    case True
    with assms show ?thesis by (auto simp: expandOutputSettings_def)
  next
    case False
    with assms obtain m hraw h rraw r where m: "as_map (Some (s ! 0)) = Some m"
      and hraw: "as_set (map_of m ''hls_output_settings'') = Some hraw"
      and h: "expandHlsOutputSettings hraw = Some h"
      and rraw: "as_set (map_of m ''rtmp_output_settings'') = Some rraw"
      and r: "expandRtmpOutputSettings rraw = Some r"
      and os: "os = \<lparr>OutputSettings.HlsOutputSettings =
                        (if h \<noteq> HlsOutputSettings_empty then Some h else None),
                      OutputSettings.RtmpOutputSettings =
                        (if r \<noteq> RtmpOutputSettings_empty then Some r else None)\<rparr>"
      by (auto simp: expandOutputSettings_def bind_eq_Some_conv Let_def)
    from m have sm: "s ! 0 = TfMap m" by (rule as_map_Some)
    show ?thesis
      using False expandRtmpOutputSettings_empty [OF r] as_set_tf_set [OF rraw]
      by (auto simp: os sm)
  qed
qed

text \<open>
  C6. The struct that \<open>expandOutputGroupSettings\<close> returns holds HLS group settings only
  with a non-nil \<open>Mode\<close>, which is the case only when the \<^verbatim>\<open>hls_group_settings\<close> set
  is non-empty, and RTMP group settings only with a non-nil \<open>AuthenticationScheme\<close>, only
  when the \<^verbatim>\<open>rtmp_group_settings\<close> set is non-empty. The struct that
  \<open>expandOutputSettings\<close> returns holds HLS and RTMP output settings only when they
  differ from the empty struct, only when their set is non-empty.
\<close>

theorem output_settings_never_hold_empty_struct:
  "(expandOutputGroupSettings s = Some ogs \<longrightarrow>
      (\<forall>h. OutputGroupSettings.HlsGroupSettings ogs = Some h \<longrightarrow>
           HlsGroupSettings.Mode h \<noteq> None \<and> h \<noteq> HlsGroupSettings_empty \<and>
           s \<noteq> [] \<and> tf_set (s ! 0) ''hls_group_settings'' \<noteq> []) \<and>
      (\<forall>r. OutputGroupSettings.RtmpGroupSettings ogs = Some r \<longrightarrow>
           RtmpGroupSettings.AuthenticationScheme r \<noteq> None \<and> r \<noteq> RtmpGroupSettings_empty \<and>
           s \<noteq> [] \<and> tf_set (s ! 0) ''rtmp_group_settings'' \<noteq> [])) \<and>
   (expandOutputSettings s' = Some os \<longrightarrow>
      (\<forall>h. OutputSettings.HlsOutputSettings os = Some h \<longrightarrow>
           h \<noteq> HlsOutputSettings_empty \<and>
           s' \<noteq> [] \<and> tf_set (s' ! 0) ''hls_output_settings'' \<noteq> []) \<and>
      (\<forall>r. OutputSettings.RtmpOutputSettings os = Some r \<longrightarrow>
           r \<noteq> RtmpOutputSettings_empty \<and>
           s' \<noteq> [] \<and> tf_set (s' ! 0) ''rtmp_output_settings'' \<noteq> []))"
proof -
  have "HlsGroupSettings.Mode h \<noteq> None \<Longrightarrow> h \<noteq> HlsGroupSettings_empty" for h
    by (auto simp: HlsGroupSettings_empty_def)
  moreover have "RtmpGroupSettings.AuthenticationScheme r \<noteq> None \<Longrightarrow> r \<noteq> RtmpGroupSettings_empty"
    for r
    by (auto simp: RtmpGroupSettings_empty_def)
  ultimately show ?thesis
    using expandOutputGroupSettings_attached [of s ogs] expandOutputSettings_attached [of s' os]
    by blast
qed

theorem output_settings_never_hold_empty_struct_witness:
  "map_option
     (\<lambda>ogs. (map_option HlsGroupSettings.Mode (OutputGroupSettings.HlsGroupSettings ogs),
             OutputGroupSettings.RtmpGroupSettings ogs))
     (expandOutputGroupSettings [sample_output_group_settings])
   = Some (Some (Some ''LIVE''), None) \<and>
   map_option
     (\<lambda>os. (map_option HlsOutputSettings.NameModifier (OutputSettings.HlsOutputSettings os),
            OutputSettings.RtmpOutputSettings os))
     (expandOutputSettings [sample_output_settings])
   = Some (Some (Some ''_1080p''), None)"
proof -
  have groups: "map_option
     (\<lambda>ogs. (map_option HlsGroupSettings.Mode (OutputGroupSettings.HlsGroupSettings ogs),
             OutputGroupSettings.RtmpGroupSettings ogs))
     (expandOutputGroupSettings [sample_output_group_settings])
   = Some (Some (Some ''LIVE''), None)"
    by (simp add: expandOutputGroupSettings_def sample_output_group_settings_def
        expandHlsGroupSettings_def expandRtmpGroupSettings_def RtmpGroupSettings_empty_def
        expandCaptionLanguageMapping_def expandHlsCdnSettings_def expandHlsBasicPutSettings_def
        expandHlsDestinationRef_def as_map_def as_set_def as_list_def as_string_def as_int_def)
  have outputs: "map_option
     (\<lambda>os. (map_option HlsOutputSettings.NameModifier (OutputSettings.HlsOutputSettings os),
            OutputSettings.RtmpOutputSettings os))
     (expandOutputSettings [sample_output_settings])
   = Some (Some (Some ''_1080p''), None)"
    by (simp add: expandOutputSettings_def sample_output_settings_def
        expandHlsOutputSettings_def expandRtmpOutputSettings_def HlsOutputSettings_empty_def
        expandHlsSettings_def expandStandardHlsSettings_def expandAudioOnlyHlsSettings_def
        expandM3u8settings_def as_map_def as_set_def as_string_def as_int_def)
  show ?thesis
    using groups outputs
      output_settings_never_hold_empty_struct
        [of "[sample_output_group_settings]"
            "the (expandOutputGroupSettings [sample_output_group_settings])"
            "[sample_output_settings]"
            "the (expandOutputSettings [sample_output_settings])"]
    by simp
qed

section \<open>Properties of flattenInputDestinations and obtainStreamName\<close>

lemma flattenInputDestinations_loop_append:
  "flattenInputDestinations_loop conn ds acc =
     map_option (\<lambda>r. acc @ r) (flattenInputDestinations_loop conn ds [])"
proof (induction ds arbitrary: acc)
  case Nil
  then show ?case by simp
next
  case (Cons d ds)
  show ?case
  proof (cases "obtainStreamName conn (InputDestination.Url d)")
    case None
    then show ?thesis by simp
  next
    case (Some sn)
    then show ?thesis
      using Cons.IH [of "acc @ [[(''url'', TfString (aws_StringValue (InputDestination.Url d))),
                     (''port'', TfString (aws_StringValue (Ip d))),
                     (''ip'', TfString (aws_StringValue (Port d))),
                     (''stream_name'', TfString sn)]]"]
            Cons.IH [of "[[(''url'', TfString (aws_StringValue (InputDestination.Url d))),
                     (''port'', TfString (aws_StringValue (Ip d))),
                     (''ip'', TfString (aws_StringValue (Port d))),
                     (''stream_name'', TfString sn)]]"]
      by (simp add: option.map_comp comp_def)
  qed
qed

text \<open>
  What the code does on every list on which it returns: the results have the length of
  the input, and the i-th map holds the destination's \<open>Ip\<close> under \<^verbatim>\<open>port\<close> and its
  \<open>Port\<close> under \<^verbatim>\<open>ip\<close>.
\<close>

lemma flattenInputDestinations_entries:
  "flattenInputDestinations conn ds = Some maps \<Longrightarrow>
   length maps = length ds \<and>
   (\<forall>i < length ds.
      map_of (maps ! i) ''url'' = Some (TfString (aws_StringValue (InputDestination.Url (ds ! i)))) \<and>
      map_of (maps ! i) ''port'' = Some (TfString (aws_StringValue (Ip (ds ! i)))) \<and>
      map_of (maps ! i) ''ip'' = Some (TfString (aws_StringValue (Port (ds ! i)))) \<and>
      (\<exists>sn. obtainStreamName conn (InputDestination.Url (ds ! i)) = Some sn \<and>
            map_of (maps ! i) ''stream_name'' = Some (TfString sn)))"
  unfolding flattenInputDestinations_def
proof (induction ds arbitrary: maps)
  case Nil
  then show ?case by simp
next
  case (Cons d ds)
  from Cons.prems obtain sn rest where sn: "obtainStreamName conn (InputDestination.Url d) = Some sn"
    and rest: "flattenInputDestinations_loop conn ds [] = Some rest"
    and maps: "maps = [(''url'', TfString (aws_StringValue (InputDestination.Url d))),
                     (''port'', TfString (aws_StringValue (Ip d))),
                     (''ip'', TfString (aws_StringValue (Port d))),
                     (''stream_name'', TfString sn)] # rest"
    by (subst (asm) flattenInputDestinations_loop.simps,
        subst (asm) flattenInputDestinations_loop_append)
       (auto simp: bind_eq_Some_conv)
  from Cons.IH [OF rest] have len: "length rest = length ds"
    and ih: "\<forall>i < length ds.
      map_of (rest ! i) ''url'' = Some (TfString (aws_StringValue (InputDestination.Url (ds ! i)))) \<and>
      map_of (rest ! i) ''port'' = Some (TfString (aws_StringValue (Ip (ds ! i)))) \<and>
      map_of (rest ! i) ''ip'' = Some (TfString (aws_StringValue (Port (ds ! i)))) \<and>
      (\<exists>sn. obtainStreamName conn (InputDestination.Url (ds ! i)) = Some sn \<and>
            map_of (rest ! i) ''stream_name'' = Some (TfString sn))"
    by simp_all
  have "length maps = length (d # ds)"
    using len maps by simp
  moreover have "map_of (maps ! i) ''url'' = Some (TfString (aws_StringValue (InputDestination.Url ((d # ds) ! i)))) \<and>
      map_of (maps ! i) ''port'' = Some (TfString (aws_StringValue (Ip ((d # ds) ! i)))) \<and>
      map_of (maps ! i) ''ip'' = Some (TfString (aws_StringValue (Port ((d # ds) ! i)))) \<and>
      (\<exists>sn. obtainStreamName conn (InputDestination.Url ((d # ds) ! i)) = Some sn \<and>
            map_of (maps ! i) ''stream_name'' = Some (TfString sn))"
    if "i < length (d # ds)" for i
    using that ih sn maps by (cases i) simp_all
  ultimately show ?case by blast
qed

text \<open>
  C1. The specification asks for the destination's \<open>Ip\<close> under \<^verbatim>\<open>ip\<close> and its \<open>Port\<close> under
  \<^verbatim>\<open>port\<close>. On the destination with address 203.0.113.7 and port 1935 the code
  returns a map with 1935 under \<^verbatim>\<open>ip\<close> and the address under \<^verbatim>\<open>port\<close>.
\<close>

theorem flattenInputDestinations_swaps_ip_and_port:
  "flattenInputDestinations (sample_conn None None (Some creating_input, None))
     [\<lparr>Ip = Some ''203.0.113.7'', Port = Some ''1935'',
       InputDestination.Url = Some ''rtmp://203.0.113.7:1935/live/a''\<rparr>]
   = Some [[(''url'', TfString ''rtmp://203.0.113.7:1935/live/a''),
            (''port'', TfString ''203.0.113.7''),
            (''ip'', TfString ''1935''),
            (''stream_name'', TfString ''live/a'')]]"
  by (simp add: flattenInputDestinations_def obtainStreamName_def sample_conn_def
      sample_url_Parse_def aws_StringValue_def)

text \<open>
  The read operation stores what \<open>flattenInputDestinations\<close> returns under
  \<^verbatim>\<open>destinations\<close>: for the input above, the map with the address under \<^verbatim>\<open>port\<close>.
\<close>

lemma resourceAwsMediaLiveInputRead_sample:
  "map_option (\<lambda>(err, d, calls). (err, map_of (rd_attrs d) ''destinations'', calls))
     (resourceAwsMediaLiveInputRead (sample_conn None None (Some creating_input, None))
        (sample_data\<lparr>rd_id := ''7654321''\<rparr>) [])
   = Some (None,
           Some (TfList [TfMap [(''url'', TfString ''rtmp://203.0.113.7:1935/live/a''),
                                (''port'', TfString ''203.0.113.7''),
                                (''ip'', TfString ''1935''),
                                (''stream_name'', TfString ''live/a'')]]),
           [CallDescribeInput (Some ''7654321'')])"
  by (simp add: resourceAwsMediaLiveInputRead_def flattenInputDestinations_def
      obtainStreamName_def sample_conn_def sample_url_Parse_def creating_input_def
      sample_data_def d_Set_def d_Id_def same_type_def aws_StringValue_def)

text \<open>When \<open>obtainStreamName\<close> returns, and what.\<close>

lemma obtainStreamName_returns:
  "obtainStreamName conn streamUrl = Some name \<longleftrightarrow>
     (\<exists>s. streamUrl = Some s \<and>
          ((\<exists>resp err. url_Parse conn s = (resp, Some err)) \<and> name = []
           \<or> (\<exists>resp. url_Parse conn s = (Some resp, None) \<and> Path resp \<noteq> [] \<and>
                     name = tl (Path resp))))"
  by (cases streamUrl; cases "url_Parse conn (the streamUrl)")
     (auto simp: obtainStreamName_def drop_Suc Suc_le_eq not_less
           split: option.splits)

text \<open>
  C8. \<open>obtainStreamName\<close> does not return on every URL pointer: it panics on the nil
  pointer and on a URL whose parsed path is empty, such as \<^verbatim>\<open>rtmp://host\<close> and the
  empty string.
\<close>

theorem obtainStreamName_panics:
  "obtainStreamName (sample_conn None None (Some creating_input, None)) None = None \<and>
   obtainStreamName (sample_conn None None (Some creating_input, None)) (Some ''rtmp://host'') = None \<and>
   obtainStreamName (sample_conn None None (Some creating_input, None)) (Some []) = None"
  by (simp add: obtainStreamName_def sample_conn_def sample_url_Parse_def)

section \<open>Properties of the input's create operation\<close>

lemma inputSecurityGroups_loop_strings:
  "i + length ids = length sl \<Longrightarrow>
   inputSecurityGroups_loop (map TfString ids) i sl = Some (take i sl @ map Some ids)"
proof (induction ids arbitrary: i sl)
  case Nil
  then show ?case by simp
next
  case (Cons x xs)
  from Cons.prems have i: "i < length sl" by simp
  have "inputSecurityGroups_loop (map TfString xs) (i + 1) (sl[i := Some x])
        = Some (take (i + 1) (sl[i := Some x]) @ map Some xs)"
    using Cons.prems by (intro Cons.IH) simp
  moreover have "take (i + 1) (sl[i := Some x]) = take i sl @ [Some x]"
    using i by (simp add: take_Suc_conv_app_nth)
  ultimately show ?case
    by (simp add: as_string_def)
qed

text \<open>
  The later revision: \<open>convertInputSecurityGroups\<close> returns the configured ids in their
  order, and the request of the create operation carries them.
\<close>

lemma convertInputSecurityGroups_strings:
  "convertInputSecurityGroups (Some (TfList (map TfString ids))) = Some (Slice (map Some ids))"
  using inputSecurityGroups_loop_strings [of 0 ids "replicate (length ids) None"]
  by (simp add: convertInputSecurityGroups_def as_list_def)

lemma d_GetOk_pair:
  "d_GetOk d key =
     (map_of (rd_attrs d) key,
      (case map_of (rd_attrs d) key of None \<Rightarrow> False | Some v \<Rightarrow> \<not> is_zero_value v))"
  by (simp add: d_GetOk_def split: option.splits)

lemma resourceAwsMediaLiveInputCreate_input_groups:
  assumes "ids \<noteq> []"
    and "map_of (rd_attrs d) ''input_security_groups'' = Some (TfList (map TfString ids))"
    and "resourceAwsMediaLiveInputCreate_input conn d w = Some (input, w1)"
  shows "InputSecurityGroups input = Slice (map Some ids)"
proof -
  have ok: "d_GetOk d ''input_security_groups'' = (Some (TfList (map TfString ids)), True)"
    using assms(1,2) by (simp add: d_GetOk_pair is_zero_value_def)
  from assms(3) show ?thesis
    unfolding resourceAwsMediaLiveInputCreate_input_def ok
    by (auto simp: convertInputSecurityGroups_strings Let_def
        split: bind_splits prod.splits if_splits)
qed

text \<open>
  C2. The specification asks for the configured group ids in the request's
  \<open>InputSecurityGroups\<close>. The earlier revision of the create operation builds the list
  of ids in a variable of its own and leaves the request's field nil: with the groups
  1111111 and 2222222 configured, the request it passes to \<^verbatim>\<open>CreateInput\<close> has no
  security groups.
\<close>

theorem resourceAwsMediaLiveInputCreate_old_drops_groups:
  "resourceAwsMediaLiveInputCreate_input_old
     (sample_conn None None (Some creating_input, None)) sample_data_old
   = Some \<lparr>CreateInputInput.Destinations = Slice [\<lparr>StreamName = Some ''live/a''\<rparr>],
           InputSecurityGroups = NilSlice,
           CreateInputInput.Name = Some ''studio'',
           RequestId = Some ''req-1'',
           RoleArn = Some ''arn:aws:iam::123456789012:role/MediaLive'',
           CreateInputInput.Tags = None,
           CreateInputInput.Type = Some ''RTMP_PUSH''\<rparr>"
  by (simp add: resourceAwsMediaLiveInputCreate_input_old_def sample_data_old_def d_Get_def
      d_GetOk_def is_zero_value_def as_string_def as_list_def as_map_def
      expandInputDestinations_def)

text \<open>
  The later revision calls the waiter after \<^verbatim>\<open>CreateInput\<close> and returns success only
  when the waiter returned without error.
\<close>

lemma resourceAwsMediaLiveInputCreate_waits:
  assumes "resourceAwsMediaLiveInputCreate conn d w = Some (None, d', w')"
  shows "\<exists>input w1 w2 r i w3.
           resourceAwsMediaLiveInputCreate_input conn d w = Some (input, w1) \<and>
           CreateInput conn input w1 = ((Some r, None), w2) \<and> Input r = Some i \<and>
           WaitForState conn
             (resourceAwsMediaLiveInputCreate_createStateConf conn
                (d_SetId d (aws_StringValue (medialive_Input.Id i)))) w2 = Some (None, w3)"
proof -
  from assms obtain input w1 where
    inp: "resourceAwsMediaLiveInputCreate_input conn d w = Some (input, w1)"
    by (auto simp: resourceAwsMediaLiveInputCreate_def split: bind_splits)
  obtain resp err w2 where c: "CreateInput conn input w1 = ((resp, err), w2)"
    by (metis prod.exhaust)
  from assms inp c have err: "err = None"
    by (auto simp: resourceAwsMediaLiveInputCreate_def split: option.splits)
  from assms inp c err obtain r i where r: "resp = Some r" and i: "Input r = Some i"
    by (auto simp: resourceAwsMediaLiveInputCreate_def split: bind_splits)
  from assms inp c err r i obtain w3 where
    "WaitForState conn
       (resourceAwsMediaLiveInputCreate_createStateConf conn
          (d_SetId d (aws_StringValue (medialive_Input.Id i)))) w2 = Some (None, w3)"
    by (auto simp: resourceAwsMediaLiveInputCreate_def Let_def
        split: bind_splits option.splits)
  with inp c err r i show ?thesis by blast
qed

text \<open>
  In a world where the input stays in the state \<^verbatim>\<open>CREATING\<close> and the waiter gives up,
  the later revision returns the waiter's error; its last call is the waiter's.
\<close>

lemma resourceAwsMediaLiveInputCreate_sample:
  "map_option (\<lambda>(err, d, calls). (err, rd_id d, length calls, last calls))
     (resourceAwsMediaLiveInputCreate
        (sample_conn None
           (Some (Errorf ''timeout while waiting for state to become %s''
                    [ArgString ''DETACHED, ATTACHED'']))
           (Some creating_input, None)) sample_data [])
   = Some (Some (Errorf ''Error waiting MediaLive Input (%s) to be created: %s''
                   [ArgString ''7654321'',
                    ArgError (Errorf ''timeout while waiting for state to become %s''
                                [ArgString ''DETACHED, ATTACHED''])]),
           ''7654321'', 2, CallWaitForState [''CREATING''] [''DETACHED'', ''ATTACHED''])"
  by (simp add: resourceAwsMediaLiveInputCreate_def resourceAwsMediaLiveInputCreate_input_def
      resourceAwsMediaLiveInputCreate_createStateConf_def
      sample_data_def sample_conn_def d_Get_def d_GetOk_def
      d_SetId_def d_Id_def is_zero_value_def as_string_def as_list_def as_map_def
      expandInputDestinations_def convertInputSecurityGroups_def aws_StringValue_def)

text \<open>
  C3. The specification asks that each create and delete operation polls a waiter after its API
  call and returns success only once the resource has left the pending states. The
  earlier revision of the input's create operation has no waiter: in a world where the
  new input is still in the state \<^verbatim>\<open>CREATING\<close> it returns success after the calls
  \<^verbatim>\<open>CreateInput\<close> and \<^verbatim>\<open>DescribeInput\<close>, without a call of \<^verbatim>\<open>WaitForState\<close>.
\<close>

theorem resourceAwsMediaLiveInputCreate_old_does_not_wait:
  "map_option (\<lambda>(err, d, calls). (err, rd_id d, calls))
     (resourceAwsMediaLiveInputCreate_old
        (sample_conn None None (Some creating_input, None)) sample_data_old [])
   = Some (None, ''7654321'',
           [CallCreateInput
              \<lparr>CreateInputInput.Destinations = Slice [\<lparr>StreamName = Some ''live/a''\<rparr>],
               InputSecurityGroups = NilSlice,
               CreateInputInput.Name = Some ''studio'',
               RequestId = Some ''req-1'',
               RoleArn = Some ''arn:aws:iam::123456789012:role/MediaLive'',
               CreateInputInput.Tags = None,
               CreateInputInput.Type = Some ''RTMP_PUSH''\<rparr>,
            CallDescribeInput (Some ''7654321'')])"
  by (simp add: resourceAwsMediaLiveInputCreate_old_def
      resourceAwsMediaLiveInputCreate_input_old_def resourceAwsMediaLiveInputRead_old_def
      sample_data_old_def sample_conn_def creating_input_def d_Get_def d_GetOk_def d_Set_def
      d_SetId_def d_Id_def is_zero_value_def same_type_def as_string_def as_list_def as_map_def
      expandInputDestinations_def aws_StringValue_def)

section \<open>Properties of the waiters and of the delete operations\<close>

text \<open>
  The pending and the target states of the later revision's input deletion waiter, of the
  channel deletion waiter and of the two creation waiters are disjoint.
\<close>

lemma waiters_disjoint:
  "set (Pending (waitForMediaLiveInputDeletion_stateConf conn inputId)) \<inter>
     set (Target (waitForMediaLiveInputDeletion_stateConf conn inputId)) = {}"
  "set (Pending (waitForMediaLiveChannelDeletion_stateConf conn channelId)) \<inter>
     set (Target (waitForMediaLiveChannelDeletion_stateConf conn channelId)) = {}"
  "set (Pending (resourceAwsMediaLiveInputCreate_createStateConf conn d)) \<inter>
     set (Target (resourceAwsMediaLiveInputCreate_createStateConf conn d)) = {}"
  "set (Pending (resourceAwsMediaLiveChannelCreate_createStateConf conn d)) \<inter>
     set (Target (resourceAwsMediaLiveChannelCreate_createStateConf conn d)) = {}"
  by (simp_all add: waitForMediaLiveInputDeletion_stateConf_def
      waitForMediaLiveChannelDeletion_stateConf_def
      resourceAwsMediaLiveInputCreate_createStateConf_def
      resourceAwsMediaLiveChannelCreate_createStateConf_def
      InputStateDetached_def InputStateAttached_def InputStateDeleting_def
      InputStateDeleted_def ChannelStateDeleting_def ChannelStateDeleted_def)

text \<open>
  C4. The specification asks that the pending and the target states of every waiter are
  disjoint. The input deletion waiter of the earlier revision lists the state
  \<^verbatim>\<open>DELETED\<close> among its pending states and as its target.
\<close>

theorem waitForMediaLiveInputDeletion_old_overlap:
  "set (Pending (waitForMediaLiveInputDeletion_stateConf_old conn inputId)) \<inter>
     set (Target (waitForMediaLiveInputDeletion_stateConf_old conn inputId)) = {''DELETED''}"
  by (simp add: waitForMediaLiveInputDeletion_stateConf_old_def
      InputStateDetached_def InputStateAttached_def InputStateDeleting_def
      InputStateDeleted_def)

text \<open>
  When the delete call itself reports \<^verbatim>\<open>NotFoundException\<close>, the delete operations of
  the input (in both revisions), of the channel and of the origin endpoint return nil
  and leave the resource data as it was.
\<close>

lemma delete_call_not_found_succeeds:
  "DeleteInput conn (Some (d_Id d)) w = (Some e, w1) \<Longrightarrow>
   isAWSErr (Some e) medialive_ErrCodeNotFoundException [] \<Longrightarrow>
   resourceAwsMediaLiveInputDelete conn d w = Some (None, d, w1)"
  "DeleteInput conn (Some (d_Id d)) w = (Some e, w1) \<Longrightarrow>
   isAWSErr (Some e) medialive_ErrCodeNotFoundException [] \<Longrightarrow>
   resourceAwsMediaLiveInputDelete_old conn d w = Some (None, d, w1)"
  "DeleteChannel conn (Some (d_Id d)) w = (Some e, w1) \<Longrightarrow>
   isAWSErr (Some e) medialive_ErrCodeNotFoundException [] \<Longrightarrow>
   resourceAwsMediaLiveChannelDelete conn d w = Some (None, d, w1)"
  "DeleteOriginEndpoint conn (Some (d_Id d)) w = (Some e, w1) \<Longrightarrow>
   isAWSErr (Some e) mediapackage_ErrCodeNotFoundException [] \<Longrightarrow>
   resourceAwsMediaPackageOriginEndpointDelete conn d w = Some (None, d, w1)"
  by (simp_all add: resourceAwsMediaLiveInputDelete_def resourceAwsMediaLiveInputDelete_old_def
      resourceAwsMediaLiveChannelDelete_def resourceAwsMediaPackageOriginEndpointDelete_def)

text \<open>
  The refresh functions of the deletion waiters turn \<^verbatim>\<open>NotFoundException\<close> into a nil
  result in the state \<^verbatim>\<open>DELETED\<close> without an error, and an error that they do return
  is never an AWS error.
\<close>

lemma mediaLiveInputRefreshFunc_not_found:
  "DescribeInput conn (Some inputId) w = ((out, Some e), w1) \<Longrightarrow>
   isAWSErr (Some e) medialive_ErrCodeNotFoundException [] \<Longrightarrow>
   mediaLiveInputRefreshFunc conn inputId w = Some ((False, InputStateDeleted, None), w1)"
  by (simp add: mediaLiveInputRefreshFunc_def)

lemma mediaLiveInputRefreshFunc_no_aws_error:
  "mediaLiveInputRefreshFunc conn inputId w = Some ((res, state, Some e), w1) \<Longrightarrow>
   \<not> isAWSErr (Some e) code message"
  by (auto simp: mediaLiveInputRefreshFunc_def isAWSErr_def
      split: prod.splits if_splits option.splits)

lemma mediaLiveChannelRefreshFunc_not_found:
  "DescribeChannel conn (Some channelId) w = ((out, Some e), w1) \<Longrightarrow>
   isAWSErr (Some e) medialive_ErrCodeNotFoundException [] \<Longrightarrow>
   mediaLiveChannelRefreshFunc conn channelId w = Some ((False, ChannelStateDeleted, None), w1)"
  by (simp add: mediaLiveChannelRefreshFunc_def)

lemma mediaLiveChannelRefreshFunc_no_aws_error:
  "mediaLiveChannelRefreshFunc conn channelId w = Some ((res, state, Some e), w1) \<Longrightarrow>
   \<not> isAWSErr (Some e) code message"
  by (auto simp: mediaLiveChannelRefreshFunc_def isAWSErr_def
      split: prod.splits if_splits option.splits)

text \<open>
  The SDK's waiter adds only errors of its own, so with a refresh function that returns no
  AWS error it returns none either.
\<close>

lemma WaitForState_loop_no_aws_error:
  assumes "\<And>w res state e w1. Refresh conf w = Some ((res, state, Some e), w1) \<Longrightarrow>
             \<not> isAWSErr (Some e) code message"
    and "WaitForState_loop rounds conf notfoundTick targetOccurence lastState w = Some (Some e, w')"
  shows "\<not> isAWSErr (Some e) code message"
  using assms(2)
proof (induction rounds arbitrary: notfoundTick targetOccurence lastState w)
  case 0
  then show ?case by (auto simp: isAWSErr_def)
next
  case (Suc rounds)
  from Suc.prems obtain res currentState err w1 where
    r: "Refresh conf w = Some ((res, currentState, err), w1)"
    by (auto simp: bind_eq_Some_conv)
  show ?case
  proof (cases err)
    case (Some e')
    with Suc.prems r assms(1) [of w res currentState e' w1] show ?thesis by simp
  next
    case None
    with Suc.prems r show ?thesis
      by (auto simp: isAWSErr_def split: if_splits dest: Suc.IH)
  qed
qed

text \<open>
  So under the SDK's waiter the test for \<^verbatim>\<open>NotFoundException\<close> after \<^verbatim>\<open>WaitForState\<close>
  never holds: the deletion waiters of the input and of the channel return what
  \<^verbatim>\<open>WaitForState\<close> returns.
\<close>

lemma waitForMediaLiveInputDeletion_sdk:
  assumes "WaitForState conn = WaitForState_sdk rounds"
  shows "waitForMediaLiveInputDeletion conn inputId w
         = WaitForState_sdk rounds (waitForMediaLiveInputDeletion_stateConf conn inputId) w"
proof (cases "WaitForState_sdk rounds (waitForMediaLiveInputDeletion_stateConf conn inputId) w")
  case None
  then show ?thesis by (simp add: waitForMediaLiveInputDeletion_def assms)
next
  case (Some r)
  obtain err w1 where r: "r = (err, w1)" by (cases r)
  have "\<not> isAWSErr err medialive_ErrCodeNotFoundException []"
  proof (cases err)
    case None
    then show ?thesis by (simp add: isAWSErr_def)
  next
    case (Some e)
    let ?conf = "(waitForMediaLiveInputDeletion_stateConf conn inputId)
        \<lparr>NotFoundChecks :=
           (if NotFoundChecks (waitForMediaLiveInputDeletion_stateConf conn inputId) = 0 then 20
            else NotFoundChecks (waitForMediaLiveInputDeletion_stateConf conn inputId)),
         ContinuousTargetOccurence :=
           (if ContinuousTargetOccurence (waitForMediaLiveInputDeletion_stateConf conn inputId) = 0
            then 1
            else ContinuousTargetOccurence
                   (waitForMediaLiveInputDeletion_stateConf conn inputId))\<rparr>"
    have loop: "WaitForState_loop rounds ?conf 0 0 [] w = Some (Some e, w1)"
      using \<open>WaitForState_sdk rounds (waitForMediaLiveInputDeletion_stateConf conn inputId) w = Some r\<close>
      by (simp add: WaitForState_sdk_def r Some)
    have refresh: "Refresh ?conf = mediaLiveInputRefreshFunc conn inputId"
      by (simp add: waitForMediaLiveInputDeletion_stateConf_def)
    have "\<not> isAWSErr (Some e) medialive_ErrCodeNotFoundException []"
      by (rule WaitForState_loop_no_aws_error [OF _ loop])
         (simp add: refresh mediaLiveInputRefreshFunc_no_aws_error)
    then show ?thesis by (simp add: Some)
  qed
  with Some r show ?thesis by (simp add: waitForMediaLiveInputDeletion_def assms)
qed

lemma waitForMediaLiveChannelDeletion_sdk:
  assumes "WaitForState conn = WaitForState_sdk rounds"
  shows "waitForMediaLiveChannelDeletion conn channelId w
         = WaitForState_sdk rounds (waitForMediaLiveChannelDeletion_stateConf conn channelId) w"
proof (cases "WaitForState_sdk rounds (waitForMediaLiveChannelDeletion_stateConf conn channelId) w")
  case None
  then show ?thesis by (simp add: waitForMediaLiveChannelDeletion_def assms)
next
  case (Some r)
  obtain err w1 where r: "r = (err, w1)" by (cases r)
  have "\<not> isAWSErr err medialive_ErrCodeNotFoundException []"
  proof (cases err)
    case None
    then show ?thesis by (simp add: isAWSErr_def)
  next
    case (Some e)
    let ?conf = "(waitForMediaLiveChannelDeletion_stateConf conn channelId)
        \<lparr>NotFoundChecks :=
           (if NotFoundChecks (waitForMediaLiveChannelDeletion_stateConf conn channelId) = 0 then 20
            else NotFoundChecks (waitForMediaLiveChannelDeletion_stateConf conn channelId)),
         ContinuousTargetOccurence :=
           (if ContinuousTargetOccurence (waitForMediaLiveChannelDeletion_stateConf conn channelId) = 0
            then 1
            else ContinuousTargetOccurence
                   (waitForMediaLiveChannelDeletion_stateConf conn channelId))\<rparr>"
    have loop: "WaitForState_loop rounds ?conf 0 0 [] w = Some (Some e, w1)"
      using \<open>WaitForState_sdk rounds (waitForMediaLiveChannelDeletion_stateConf conn channelId) w = Some r\<close>
      by (simp add: WaitForState_sdk_def r Some)
    have refresh: "Refresh ?conf = mediaLiveChannelRefreshFunc conn channelId"
      by (simp add: waitForMediaLiveChannelDeletion_stateConf_def)
    have "\<not> isAWSErr (Some e) medialive_ErrCodeNotFoundException []"
      by (rule WaitForState_loop_no_aws_error [OF _ loop])
         (simp add: refresh mediaLiveChannelRefreshFunc_no_aws_error)
    then show ?thesis by (simp add: Some)
  qed
  with Some r show ?thesis by (simp add: waitForMediaLiveChannelDeletion_def assms)
qed

text \<open>
  Hence, with the SDK's waiter, in every world in which the delete call succeeds and the
  input is reported with \<^verbatim>\<open>NotFoundException\<close> from then on, the input's delete
  operation returns an error, however many rounds fit into the timeout.
\<close>

lemma resourceAwsMediaLiveInputDelete_gone:
  assumes sdk: "WaitForState conn = WaitForState_sdk rounds"
    and deleted: "DeleteInput conn (Some (d_Id d)) w = (None, w1)"
    and gone: "\<And>w. \<exists>out e w'. DescribeInput conn (Some (d_Id d)) w = ((out, Some e), w') \<and>
                 isAWSErr (Some e) medialive_ErrCodeNotFoundException []"
  shows "\<exists>e w'. resourceAwsMediaLiveInputDelete conn d w = Some (Some e, d, w')"
proof -
  let ?conf = "(waitForMediaLiveInputDeletion_stateConf conn (d_Id d))
                 \<lparr>NotFoundChecks := 1, ContinuousTargetOccurence := 1\<rparr>"
  have refresh: "\<exists>w'. Refresh ?conf w = Some ((False, InputStateDeleted, None), w')" for w
    using gone [of w] mediaLiveInputRefreshFunc_not_found [of conn "d_Id d" w]
    by (auto simp: waitForMediaLiveInputDeletion_stateConf_def)
  have target: "length (Target ?conf) \<noteq> 0" "NotFoundChecks ?conf = 1"
    by (simp_all add: waitForMediaLiveInputDeletion_stateConf_def)
  have zero: "\<exists>e w'. WaitForState_loop 0 ?conf n t s w = Some (Some e, w')" for n t s w
    by simp
  have two: "\<exists>e w'. WaitForState_loop (Suc k) ?conf 1 t s w = Some (Some e, w')" for k t s w
  proof -
    from refresh [of w] obtain w' where
      "Refresh ?conf w = Some ((False, InputStateDeleted, None), w')" by blast
    then show ?thesis using target by simp
  qed
  have one: "\<exists>e w'. WaitForState_loop (Suc k) ?conf 0 t s w = Some (Some e, w')" for k t s w
  proof -
    from refresh [of w] obtain w' where
      r: "Refresh ?conf w = Some ((False, InputStateDeleted, None), w')" by blast
    show ?thesis
    proof (cases k)
      case 0
      with r target show ?thesis by simp
    next
      case (Suc j)
      with r target two [of j t InputStateDeleted w'] show ?thesis by simp
    qed
  qed
  have "\<exists>e w'. WaitForState_sdk rounds (waitForMediaLiveInputDeletion_stateConf conn (d_Id d)) w1
          = Some (Some e, w')"
  proof (cases rounds)
    case 0
    then show ?thesis by (simp add: WaitForState_sdk_def)
  next
    case (Suc k)
    have "(waitForMediaLiveInputDeletion_stateConf conn (d_Id d))
            \<lparr>NotFoundChecks :=
               (if NotFoundChecks (waitForMediaLiveInputDeletion_stateConf conn (d_Id d)) = 0
                then 20
                else NotFoundChecks (waitForMediaLiveInputDeletion_stateConf conn (d_Id d))),
             ContinuousTargetOccurence :=
               (if ContinuousTargetOccurence
                     (waitForMediaLiveInputDeletion_stateConf conn (d_Id d)) = 0
                then 1
                else ContinuousTargetOccurence
                       (waitForMediaLiveInputDeletion_stateConf conn (d_Id d)))\<rparr> = ?conf"
      by (simp add: waitForMediaLiveInputDeletion_stateConf_def)
    with one [of k 0 "[]" w1] Suc show ?thesis
      by (simp add: WaitForState_sdk_def)
  qed
  then obtain e w' where
    "waitForMediaLiveInputDeletion conn (d_Id d) w1 = Some (Some e, w')"
    using waitForMediaLiveInputDeletion_sdk [OF sdk] by metis
  with deleted show ?thesis
    by (simp add: resourceAwsMediaLiveInputDelete_def)
qed

text \<open>
  C9. The specification asks that deleting a resource that is already absent succeeds,
  also when the absence shows only in the deletion waiter. When the delete call succeeds
  and the describe calls of the waiter then report \<^verbatim>\<open>NotFoundException\<close>, the delete
  operations of the input and of the channel return an error: the refresh function hands
  the waiter a nil result, the waiter gives up at its second not-found tick with a
  \<^verbatim>\<open>NotFoundError\<close>, which is no AWS error, and the operation wraps it.
\<close>

theorem delete_fails_when_waiter_finds_resource_gone:
  "resourceAwsMediaLiveInputDelete gone_conn (sample_data\<lparr>rd_id := ''7654321''\<rparr>) []
   = Some (Some (Errorf ''Error waiting for deleting MediaLive Input(%s): %s''
                   [ArgString ''7654321'', ArgError (NotFoundError 2)]),
           sample_data\<lparr>rd_id := ''7654321''\<rparr>,
           [CallDeleteInput (Some ''7654321''),
            CallDescribeInput (Some ''7654321''),
            CallDescribeInput (Some ''7654321'')]) \<and>
   resourceAwsMediaLiveChannelDelete gone_conn (sample_data\<lparr>rd_id := ''7654321''\<rparr>) []
   = Some (Some (Errorf ''Error waiting for deleting MediaLive Channel(%s): %s''
                   [ArgString ''7654321'', ArgError (NotFoundError 2)]),
           sample_data\<lparr>rd_id := ''7654321''\<rparr>,
           [CallDeleteChannel (Some ''7654321''),
            CallDescribeChannel (Some ''7654321''),
            CallDescribeChannel (Some ''7654321'')])"
  by (simp add: resourceAwsMediaLiveInputDelete_def waitForMediaLiveInputDeletion_def
      waitForMediaLiveInputDeletion_stateConf_def mediaLiveInputRefreshFunc_def
      resourceAwsMediaLiveChannelDelete_def waitForMediaLiveChannelDeletion_def
      waitForMediaLiveChannelDeletion_stateConf_def mediaLiveChannelRefreshFunc_def
      gone_conn_def sample_conn_def not_found_def WaitForState_sdk_def isAWSErr_def
      medialive_ErrCodeNotFoundException_def InputStateDeleted_def ChannelStateDeleted_def
      d_Id_def numeral_eq_Suc)

text \<open>The earlier revision of the input's delete operation returns the same error.\<close>

lemma resourceAwsMediaLiveInputDelete_old_gone:
  "resourceAwsMediaLiveInputDelete_old gone_conn (sample_data_old\<lparr>rd_id := ''7654321''\<rparr>) []
   = Some (Some (Errorf ''Error waiting for deleting MediaLive Input(%s): %s''
                   [ArgString ''7654321'', ArgError (NotFoundError 2)]),
           sample_data_old\<lparr>rd_id := ''7654321''\<rparr>,
           [CallDeleteInput (Some ''7654321''),
            CallDescribeInput (Some ''7654321''),
            CallDescribeInput (Some ''7654321'')])"
  by (simp add: resourceAwsMediaLiveInputDelete_old_def waitForMediaLiveInputDeletion_old_def
      waitForMediaLiveInputDeletion_stateConf_old_def mediaLiveInputRefreshFunc_def
      gone_conn_def sample_conn_def not_found_def WaitForState_sdk_def isAWSErr_def
      medialive_ErrCodeNotFoundException_def InputStateDeleted_def
      d_Id_def numeral_eq_Suc)

end
